theory Spec2Isabelle
  imports Main "HOL-Library.Word"
begin

unbundle bit_operations_syntax

section \<open>The image upload server \<open>fast_server.py\<close>\<close>

text \<open>
  The server accepts an image over three transports (a JSON POST carrying base64 text, a
  multipart POST, a WebSocket), schedules an optional write of the bytes to disk, calls a
  processing hook and answers with an acknowledgment command and a timestamp.

  Conventions of the embedding.
  \<^item> A Python \<open>str\<close> is a \<open>string\<close>. Isabelle's \<open>char\<close> has the code points 0 to 255, so
    the non-ASCII characters of these strings are the code points 128 to 255. Where a
    code point beyond 255 decides what the program does (a lone surrogate in a label
    cannot be rendered into a response), the HTTP handlers are embedded a second time
    with a \<open>str\<close> as the list of its code points.
  \<^item> A Python \<open>bytes\<close> object is a list of 8-bit words.
  \<^item> The values that \<open>json.loads\<close> produces and that \<open>JSONResponse\<close> and \<open>send_json\<close>
    consume are the datatype \<open>pyval\<close>; a \<open>dict\<close> is an association list in insertion
    order.
  \<^item> An exception is a value of type \<open>error\<close>, on the left of a sum.
  \<^item> The wall clock is an input: every function that reads it takes the \<open>datetime\<close>
    it would read.
\<close>

subsection \<open>Values, errors, strings\<close>

type_synonym bytes = "8 word list"

datatype error =
    ValueError
  | BinasciiError
  | JSONDecodeError
  | AttributeError
  | OSError
  | UnicodeEncodeError

datatype 'c pval =
    PNone
  | PBool bool
  | PInt int
  | PFloat "64 word"
  | PStr "'c list"
  | PList "'c pval list"
  | PDict "('c list \<times> 'c pval) list"

type_synonym pyval = "char pval"

text \<open>
  Python's truth value of an object, as \<open>if label:\<close> tests it. A float is stored as its
  IEEE-754 bits; it is false when it is \<open>0.0\<close> or \<open>-0.0\<close>, that is when every bit below
  the sign bit is clear.
\<close>

fun truthy :: "'c pval \<Rightarrow> bool" where
  "truthy PNone = False"
| "truthy (PBool b) = b"
| "truthy (PInt i) = (i \<noteq> 0)"
| "truthy (PFloat w) = (take_bit 63 w \<noteq> 0)"
| "truthy (PStr s) = (s \<noteq> [])"
| "truthy (PList xs) = (xs \<noteq> [])"
| "truthy (PDict kvs) = (kvs \<noteq> [])"

text \<open>\<open>d[k] = v\<close>: an existing key keeps its place, a new key goes to the end.\<close>

fun dict_setitem :: "('k \<times> 'v) list \<Rightarrow> 'k \<Rightarrow> 'v \<Rightarrow> ('k \<times> 'v) list" where
  "dict_setitem [] k v = [(k, v)]"
| "dict_setitem ((k', v') # kvs) k v =
     (if k' = k then (k, v) # kvs else (k', v') # dict_setitem kvs k v)"

text \<open>
  \<open>msg.get(k)\<close>: on a dict the value or \<open>None\<close>; the other JSON values have no
  attribute \<open>get\<close>.
\<close>

fun py_get :: "pyval \<Rightarrow> string \<Rightarrow> error + pyval" where
  "py_get (PDict kvs) k = Inr (case map_of kvs k of None \<Rightarrow> PNone | Some v \<Rightarrow> v)"
| "py_get _ k = Inl AttributeError"

text \<open>An \<open>Optional[str]\<close> as a Python value.\<close>

fun optional_str :: "'c list option \<Rightarrow> 'c pval" where
  "optional_str None = PNone"
| "optional_str (Some s) = PStr s"

definition startswith :: "'a list \<Rightarrow> 'a list \<Rightarrow> bool" where
  "startswith s p = (take (length p) s = p)"

text \<open>\<open>s.find(c)\<close>: the index of the first occurrence of \<open>c\<close>, or \<open>-1\<close>.\<close>

fun find_from :: "'a list \<Rightarrow> 'a \<Rightarrow> int \<Rightarrow> int" where
  "find_from [] c i = - 1"
| "find_from (x # xs) c i = (if x = c then i else find_from xs c (i + 1))"

definition str_find :: "'a list \<Rightarrow> 'a \<Rightarrow> int" where
  "str_find s c = find_from s c 0"

subsection \<open>\<open>base64.b64decode\<close>\<close>

text \<open>
  \<open>base64.b64decode(s)\<close> with its default \<open>validate=False\<close>, as the handlers call it, is
  Python's standard library and not part of the repository. It is modelled after
  CPython: a \<open>str\<close> argument is encoded to ASCII, which raises \<open>ValueError\<close> on a
  character above 127, and the bytes go through \<open>binascii.a2b_base64\<close> in its
  non-strict mode, whose loop is \<open>a2b_loop\<close>: \<open>quad_pos\<close> counts the alphabet characters
  of the current group of four, \<open>leftchar\<close> holds the bits not yet written, \<open>pads\<close> counts
  the \<open>=\<close> seen since the last alphabet character.
\<close>

definition BASE64_PAD :: "8 word" where
  "BASE64_PAD = 61"

definition table_a2b_base64 :: "8 word \<Rightarrow> 8 word" where
  "table_a2b_base64 c =
     (if 65 \<le> c \<and> c \<le> 90 then c - 65
      else if 97 \<le> c \<and> c \<le> 122 then c - 71
      else if 48 \<le> c \<and> c \<le> 57 then c + 4
      else if c = 43 then 62
      else if c = 47 then 63
      else 255)"

fun a2b_loop :: "bytes \<Rightarrow> nat \<Rightarrow> 8 word \<Rightarrow> nat \<Rightarrow> bytes \<Rightarrow> error + bytes" where
  "a2b_loop [] quad_pos leftchar pads bin_data =
     (if quad_pos \<noteq> 0 then Inl BinasciiError else Inr bin_data)"
| "a2b_loop (c # cs) quad_pos leftchar pads bin_data =
     (if c = BASE64_PAD then
        (if quad_pos \<ge> 2 \<and> quad_pos + (pads + 1) \<ge> 4 then Inr bin_data
         else a2b_loop cs quad_pos leftchar (if quad_pos \<ge> 2 then pads + 1 else pads) bin_data)
      else
        (let this_ch = table_a2b_base64 c in
         if this_ch \<ge> 64 then a2b_loop cs quad_pos leftchar pads bin_data
         else if quad_pos = 0 then a2b_loop cs 1 this_ch 0 bin_data
         else if quad_pos = 1 then
           a2b_loop cs 2 (this_ch AND 0x0f) 0
             (bin_data @ [push_bit 2 leftchar OR drop_bit 4 this_ch])
         else if quad_pos = 2 then
           a2b_loop cs 3 (this_ch AND 0x03) 0
             (bin_data @ [push_bit 4 leftchar OR drop_bit 2 this_ch])
         else
           a2b_loop cs 0 0 0 (bin_data @ [push_bit 6 leftchar OR this_ch])))"

definition a2b_base64 :: "bytes \<Rightarrow> error + bytes" where
  "a2b_base64 data = a2b_loop data 0 0 0 []"

definition is_ascii :: "string \<Rightarrow> bool" where
  "is_ascii s = (\<forall>c \<in> set s. (of_char c :: nat) < 128)"

definition b64decode :: "string \<Rightarrow> error + bytes" where
  "b64decode s = (if is_ascii s then a2b_base64 (map of_char s) else Inl ValueError)"

subsection \<open>Timestamps\<close>

text \<open>
  A \<open>datetime\<close> in UTC. Python keeps its fields in range (\<open>valid_datetime\<close>), so every
  field fits the width it is printed with and \<open>zpad\<close>, which prints the last \<open>w\<close> decimal
  digits, is \<open>%0wd\<close> on them.
\<close>

record datetime =
  year :: nat
  month :: nat
  day :: nat
  hour :: nat
  minute :: nat
  second :: nat
  microsecond :: nat

definition valid_datetime :: "datetime \<Rightarrow> bool" where
  "valid_datetime dt =
     (1 \<le> year dt \<and> year dt \<le> 9999 \<and> 1 \<le> month dt \<and> month dt \<le> 12 \<and>
      1 \<le> day dt \<and> day dt \<le> 31 \<and> hour dt < 24 \<and> minute dt < 60 \<and> second dt < 60 \<and>
      microsecond dt < 1000000)"

definition digit :: "nat \<Rightarrow> char" where
  "digit n = char_of (48 + n)"

fun zpad :: "nat \<Rightarrow> nat \<Rightarrow> string" where
  "zpad 0 n = []"
| "zpad (Suc w) n = zpad w (n div 10) @ [digit (n mod 10)]"

text \<open>\<open>datetime.isoformat()\<close> of an aware datetime whose offset is zero.\<close>

definition isoformat :: "datetime \<Rightarrow> string" where
  "isoformat dt =
     zpad 4 (year dt) @ ''-'' @ zpad 2 (month dt) @ ''-'' @ zpad 2 (day dt) @ ''T'' @
     zpad 2 (hour dt) @ '':'' @ zpad 2 (minute dt) @ '':'' @ zpad 2 (second dt) @
     (if microsecond dt \<noteq> 0 then ''.'' @ zpad 6 (microsecond dt) else []) @ ''+00:00''"

text \<open>The decimal digits of a number, as \<open>str\<close> and \<open>%d\<close> print them.\<close>

fun str_nat :: "nat \<Rightarrow> string" where
  "str_nat n = (if n < 10 then [digit n] else str_nat (n div 10) @ [digit (n mod 10)])"

declare str_nat.simps [simp del]

definition str_int :: "int \<Rightarrow> string" where
  "str_int i = (if i < 0 then ''-'' @ str_nat (nat (- i)) else str_nat (nat i))"

text \<open>
  \<open>strftime("%Y%m%dT%H%M%SZ")\<close>. The C library (glibc) prints \<open>%Y\<close> as the year
  without padding and the other fields with two digits.
\<close>

definition strftime_compact :: "datetime \<Rightarrow> string" where
  "strftime_compact dt =
     str_nat (year dt) @ zpad 2 (month dt) @ zpad 2 (day dt) @ ''T'' @
     zpad 2 (hour dt) @ zpad 2 (minute dt) @ zpad 2 (second dt) @ ''Z''"

definition current_iso_timestamp :: "datetime \<Rightarrow> string" where
  "current_iso_timestamp now = isoformat now"

text \<open>
  What a well-formed timestamp is. In a pattern the character \<open>9\<close> stands for any
  decimal digit and every other character for itself. An ISO-8601 UTC timestamp has
  the date, \<open>T\<close>, the time with or without six digits of fraction and the offset
  \<open>+00:00\<close>, with month, day, hour, minute and second in their ranges.
\<close>

definition is_digit :: "char \<Rightarrow> bool" where
  "is_digit c = (48 \<le> (of_char c :: nat) \<and> (of_char c :: nat) \<le> 57)"

fun matches_pat :: "string \<Rightarrow> string \<Rightarrow> bool" where
  "matches_pat [] [] = True"
| "matches_pat (p # ps) (c # cs) =
     ((if p = CHR ''9'' then is_digit c else c = p) \<and> matches_pat ps cs)"
| "matches_pat _ _ = False"

definition digits_val :: "string \<Rightarrow> nat" where
  "digits_val s = foldl (\<lambda>a c. 10 * a + (of_char c - 48)) 0 s"

definition field :: "string \<Rightarrow> nat \<Rightarrow> nat \<Rightarrow> nat" where
  "field s i n = digits_val (take n (drop i s))"

definition is_iso8601_utc :: "string \<Rightarrow> bool" where
  "is_iso8601_utc s =
     ((matches_pat ''9999-99-99T99:99:99+00:00'' s \<or>
       matches_pat ''9999-99-99T99:99:99.999999+00:00'' s) \<and>
      1 \<le> field s 5 2 \<and> field s 5 2 \<le> 12 \<and> 1 \<le> field s 8 2 \<and> field s 8 2 \<le> 31 \<and>
      field s 11 2 \<le> 23 \<and> field s 14 2 \<le> 59 \<and> field s 17 2 \<le> 59)"

subsection \<open>Helpers of the server\<close>

text \<open>
  \<open>process_image_bytes\<close> (lines 34 to 51): the body is a docstring, comments and
  \<open>return\<close>.
\<close>

definition process_image_bytes :: "bytes \<Rightarrow> error + unit" where
  "process_image_bytes image_bytes = Inr ()"

text \<open>\<open>make_control_command\<close> (lines 53 to 63); the result is the dict \<open>cmd\<close>.\<close>

definition make_control_command :: "pyval \<Rightarrow> (string \<times> pyval) list" where
  "make_control_command lbl =
     (let cmd = [(''action'', PStr ''ACK'')] in
      if truthy lbl then dict_setitem cmd ''labelReceived'' lbl else cmd)"

text \<open>
  What an f-string makes of a value, \<open>format(v, "")\<close>: a \<open>str\<close> is itself, an \<open>int\<close>
  its decimal digits, a \<open>bool\<close> and \<open>None\<close> their names. How Python prints a float, a
  list or a dict is not modelled: it is the parameter \<open>other\<close>.
\<close>

fun format_value :: "(pyval \<Rightarrow> string) \<Rightarrow> pyval \<Rightarrow> string" where
  "format_value other PNone = ''None''"
| "format_value other (PBool b) = (if b then ''True'' else ''False'')"
| "format_value other (PInt i) = str_int i"
| "format_value other (PStr s) = s"
| "format_value other v = other v"

text \<open>
  \<open>save_image\<close> (lines 65 to 73). Its label is whatever the handler passes: an
  \<open>Optional[str]\<close> on the HTTP paths, any JSON value from a WebSocket text frame
  (line 178), nothing on a binary frame. The module constants \<open>STORE_IMAGES\<close> and
  \<open>RECEIVED_IMAGES_DIR\<close> are the configuration; a path is kept as pathlib builds it,
  with the operator \<open>/\<close> as the constructor \<open>Div\<close>. Opening the path for writing and
  writing the bytes is the operating system's work: it is the parameter \<open>write_file\<close>,
  which returns the new file system or the exception that \<open>aiofiles\<close> raises.
\<close>

datatype path = Path string | Div path string

record config =
  STORE_IMAGES :: bool
  module_parent :: path

definition RECEIVED_IMAGES_DIR :: "config \<Rightarrow> path" where
  "RECEIVED_IMAGES_DIR cfg = Div (module_parent cfg) ''received_images''"

definition save_image ::
  "config \<Rightarrow> (path \<Rightarrow> bytes \<Rightarrow> 'fs \<Rightarrow> error + 'fs) \<Rightarrow> (pyval \<Rightarrow> string) \<Rightarrow> datetime \<Rightarrow>
   bytes \<Rightarrow> pyval \<Rightarrow> 'fs \<Rightarrow> error + 'fs" where
  "save_image cfg write_file other now image_bytes lbl fs =
     (if \<not> STORE_IMAGES cfg then Inr fs
      else
        (let timestamp = strftime_compact now;
             suffix = (if truthy lbl then ''_'' @ format_value other lbl else []);
             filename = timestamp @ suffix @ ''.jpg'';
             path = Div (RECEIVED_IMAGES_DIR cfg) filename
         in write_file path image_bytes fs))"

text \<open>
  The prefix stripping that \<open>upload_base64\<close> (lines 88 to 92) and \<open>websocket_endpoint\<close>
  (lines 163 to 166) both spell out.
\<close>

definition strip_data_uri :: "string \<Rightarrow> string" where
  "strip_data_uri img_str =
     (if startswith img_str ''data:'' then
        (let comma = str_find img_str CHR '','' in
         if comma \<noteq> - 1 then drop (nat (comma + 1)) img_str else img_str)
      else img_str)"

subsection \<open>HTTP endpoints\<close>

text \<open>
  A handler returns the \<open>JSONResponse\<close> and the \<open>BackgroundTasks\<close> object it was given,
  with the calls of \<open>save_image\<close> it added (the bytes and the label of each). The
  framework runs them after the response; the handler does not wait for them.
\<close>

record response =
  status_code :: nat
  content :: pyval

record Base64Upload =
  label :: "string option"
  image' :: string

type_synonym save_call = "bytes \<times> pyval"

definition ack_response :: "pyval \<Rightarrow> datetime \<Rightarrow> pyval" where
  "ack_response lbl now =
     (let cmd = make_control_command lbl in
      PDict [(''command'', PDict cmd), (''commandSentAt'', PStr (current_iso_timestamp now))])"

definition upload_base64 ::
  "Base64Upload \<Rightarrow> save_call list \<Rightarrow> datetime \<Rightarrow> error + (response \<times> save_call list)" where
  "upload_base64 payload background_tasks now =
     (let img_str = strip_data_uri (image' payload) in
      case b64decode img_str of
        Inl e \<Rightarrow>
          Inr (\<lparr>status_code = 400,
                content = PDict [(''error'', PStr ''Invalid base64 image'')]\<rparr>,
               background_tasks)
      | Inr image_bytes \<Rightarrow>
          (let background_tasks =
                 background_tasks @ [(image_bytes, optional_str (label payload))] in
           case process_image_bytes image_bytes of
             Inl e \<Rightarrow> Inl e
           | Inr _ \<Rightarrow>
               Inr (\<lparr>status_code = 200,
                     content = ack_response (optional_str (label payload)) now\<rparr>,
                    background_tasks)))"

text \<open>\<open>upload_form\<close>: \<open>read_result\<close> is what \<open>await image.read()\<close> gives.\<close>

definition upload_form ::
  "save_call list \<Rightarrow> string option \<Rightarrow> error + bytes \<Rightarrow> datetime \<Rightarrow>
   error + (response \<times> save_call list)" where
  "upload_form background_tasks lbl read_result now =
     (case read_result of
        Inl e \<Rightarrow>
          Inr (\<lparr>status_code = 500,
                content = PDict [(''error'', PStr ''Failed to read uploaded file'')]\<rparr>,
               background_tasks)
      | Inr contents \<Rightarrow>
          (let background_tasks = background_tasks @ [(contents, optional_str lbl)] in
           case process_image_bytes contents of
             Inl e \<Rightarrow> Inl e
           | Inr _ \<Rightarrow>
               Inr (\<lparr>status_code = 200, content = ack_response (optional_str lbl) now\<rparr>,
                    background_tasks)))"

text \<open>
  What becomes of the scheduled calls is the framework's work, not the handler's.
  Starlette sends the response and then awaits the background tasks one after the
  other; an exception of a task ends that run and goes to the server's log. A POST
  is therefore answered with what the handler returned, and the second component
  below, the outcome of the writes, reaches nobody. \<open>now'\<close> is the clock reading when
  the tasks run.
\<close>

fun run_background_tasks ::
  "config \<Rightarrow> (path \<Rightarrow> bytes \<Rightarrow> 'fs \<Rightarrow> error + 'fs) \<Rightarrow> (pyval \<Rightarrow> string) \<Rightarrow> datetime \<Rightarrow>
   save_call list \<Rightarrow> 'fs \<Rightarrow> error + 'fs" where
  "run_background_tasks cfg write_file other now' [] fs = Inr fs"
| "run_background_tasks cfg write_file other now' ((image_bytes, lbl) # rest) fs =
     (case save_image cfg write_file other now' image_bytes lbl fs of
        Inl e \<Rightarrow> Inl e
      | Inr fs' \<Rightarrow> run_background_tasks cfg write_file other now' rest fs')"

definition post_uploadBase64 ::
  "config \<Rightarrow> (path \<Rightarrow> bytes \<Rightarrow> 'fs \<Rightarrow> error + 'fs) \<Rightarrow> (pyval \<Rightarrow> string) \<Rightarrow> Base64Upload \<Rightarrow>
   datetime \<Rightarrow> datetime \<Rightarrow> 'fs \<Rightarrow> (error + response) \<times> (error + 'fs)" where
  "post_uploadBase64 cfg write_file other payload now now' fs =
     (case upload_base64 payload [] now of
        Inl e \<Rightarrow> (Inl e, Inr fs)
      | Inr (r, background_tasks) \<Rightarrow>
          (Inr r, run_background_tasks cfg write_file other now' background_tasks fs))"

definition post_upload ::
  "config \<Rightarrow> (path \<Rightarrow> bytes \<Rightarrow> 'fs \<Rightarrow> error + 'fs) \<Rightarrow> (pyval \<Rightarrow> string) \<Rightarrow> string option \<Rightarrow>
   error + bytes \<Rightarrow> datetime \<Rightarrow> datetime \<Rightarrow> 'fs \<Rightarrow> (error + response) \<times> (error + 'fs)" where
  "post_upload cfg write_file other lbl read_result now now' fs =
     (case upload_form [] lbl read_result now of
        Inl e \<Rightarrow> (Inl e, Inr fs)
      | Inr (r, background_tasks) \<Rightarrow>
          (Inr r, run_background_tasks cfg write_file other now' background_tasks fs))"

subsection \<open>The WebSocket endpoint\<close>

text \<open>
  What \<open>ws.receive()\<close> returns is a dict with the key \<open>type\<close> and, for a data frame, the
  keys \<open>text\<close> and \<open>bytes\<close>; the code treats a missing key and the value \<open>None\<close> alike,
  and so does the record. The connection state is the list of frames sent with
  \<open>send_json\<close> and the list of \<open>save_image\<close> calls given to \<open>asyncio.create_task\<close>.
  \<open>json.loads\<close> is the parameter \<open>loads\<close>.
\<close>

record ws_message =
  msg_type :: string
  msg_text :: "string option"
  msg_bytes :: "bytes option"

record ws_conn =
  accepted :: bool
  sent :: "pyval list"
  tasks :: "save_call list"

definition send_json :: "ws_conn \<Rightarrow> pyval \<Rightarrow> ws_conn" where
  "send_json ws v = ws\<lparr>sent := sent ws @ [v]\<rparr>"

definition create_task :: "ws_conn \<Rightarrow> save_call \<Rightarrow> ws_conn" where
  "create_task ws call = ws\<lparr>tasks := tasks ws @ [call]\<rparr>"

text \<open>
  The body of the \<open>try\<close> of a text frame (lines 157 to 173): it raises, or finds that
  \<open>image\<close> is not a \<open>str\<close>, or yields the bytes and the label.
\<close>

datatype text_outcome = NotAString | Decoded bytes pyval

definition decode_text_frame :: "(string \<Rightarrow> error + pyval) \<Rightarrow> string \<Rightarrow> error + text_outcome" where
  "decode_text_frame loads txt =
     (case loads txt of
        Inl e \<Rightarrow> Inl e
      | Inr msg \<Rightarrow>
          (case py_get msg ''label'' of
             Inl e \<Rightarrow> Inl e
           | Inr lbl \<Rightarrow>
               (case py_get msg ''image'' of
                  Inl e \<Rightarrow> Inl e
                | Inr (PStr img_str) \<Rightarrow>
                    (case b64decode (strip_data_uri img_str) of
                       Inl e \<Rightarrow> Inl e
                     | Inr image_bytes \<Rightarrow> Inr (Decoded image_bytes lbl))
                | Inr _ \<Rightarrow> Inr NotAString)))"

datatype loop_control = Continue | Break

text \<open>The two error frames of the text branch (lines 170 to 172 and line 175).\<close>

definition invalid_format_reply :: pyval where
  "invalid_format_reply =
     PDict [(''error'', PStr ''Invalid message format: 'image' must be base64 string'')]"

definition malformed_reply :: pyval where
  "malformed_reply = PDict [(''error'', PStr ''Malformed JSON or base64 decode error'')]"

text \<open>One pass through the body of \<open>while True\<close> (lines 151 to 202).\<close>

definition ws_iteration ::
  "(string \<Rightarrow> error + pyval) \<Rightarrow> ws_message \<Rightarrow> datetime \<Rightarrow> ws_conn \<Rightarrow>
   error + (loop_control \<times> ws_conn)" where
  "ws_iteration loads data now ws =
     (if msg_type data = ''websocket.receive'' then
        (case msg_text data of
           Some txt \<Rightarrow>
             (case decode_text_frame loads txt of
                Inl e \<Rightarrow> Inr (Continue, send_json ws malformed_reply)
              | Inr NotAString \<Rightarrow> Inr (Continue, send_json ws invalid_format_reply)
              | Inr (Decoded image_bytes lbl) \<Rightarrow>
                  (let ws = create_task ws (image_bytes, lbl) in
                   case process_image_bytes image_bytes of
                     Inl e \<Rightarrow> Inl e
                   | Inr _ \<Rightarrow> Inr (Continue, send_json ws (ack_response lbl now))))
         | None \<Rightarrow>
             (case msg_bytes data of
                Some image_bytes \<Rightarrow>
                  (let ws = create_task ws (image_bytes, PNone) in
                   case process_image_bytes image_bytes of
                     Inl e \<Rightarrow> Inl e
                   | Inr _ \<Rightarrow> Inr (Continue, send_json ws (ack_response PNone now)))
              | None \<Rightarrow> Inr (Continue, ws)))
      else if msg_type data = ''websocket.disconnect'' then Inr (Break, ws)
      else Inr (Continue, ws))"

text \<open>
  The loop over the frames that arrive, each with the clock reading of its pass. It
  ends when a disconnect message arrives (\<open>Closed\<close>); when the frames received so far
  are used up it is suspended in \<open>ws.receive()\<close> (\<open>Receiving\<close>).
\<close>

datatype loop_state = Receiving | Closed

fun receive_loop ::
  "(string \<Rightarrow> error + pyval) \<Rightarrow> (ws_message \<times> datetime) list \<Rightarrow> ws_conn \<Rightarrow>
   error + (loop_state \<times> ws_conn)" where
  "receive_loop loads [] ws = Inr (Receiving, ws)"
| "receive_loop loads ((data, now) # rest) ws =
     (case ws_iteration loads data now ws of
        Inl e \<Rightarrow> Inl e
      | Inr (Break, ws') \<Rightarrow> Inr (Closed, ws')
      | Inr (Continue, ws') \<Rightarrow> receive_loop loads rest ws')"

definition websocket_endpoint ::
  "(string \<Rightarrow> error + pyval) \<Rightarrow> (ws_message \<times> datetime) list \<Rightarrow> ws_conn \<Rightarrow>
   error + (loop_state \<times> ws_conn)" where
  "websocket_endpoint loads frames ws = receive_loop loads frames (ws\<lparr>accepted := True\<rparr>)"

subsection \<open>The HTTP endpoints on strings of any code point\<close>

text \<open>
  A Python \<open>str\<close> holds any code point, also a lone surrogate (\<open>json.loads\<close> makes one
  of the escape of U+D800 in a JSON string, and the \<open>Optional[str]\<close> field takes it).
  The handlers end in \<open>JSONResponse(content=...)\<close>, whose constructor renders the body with
  \<open>json.dumps(content, ensure_ascii=False, allow_nan=False, ...).encode("utf-8")\<close>:
  \<open>json.dumps\<close> raises \<open>ValueError\<close> on a float that is not finite, and UTF-8 has no
  encoding of a surrogate, so \<open>encode\<close> raises \<open>UnicodeEncodeError\<close>, inside the handler.
  On the strings above nothing of this can happen. Here the two HTTP handlers are
  embedded again, line by line as above, with a \<open>str\<close> as the list of its code points
  and the rendering as a step that can raise; \<open>wide\<close> takes the literals of the source
  to such lists.
\<close>

type_synonym wstr = "nat list"

type_synonym wval = "nat pval"

definition wide :: "string \<Rightarrow> wstr" where
  "wide s = map of_char s"

definition is_surrogate :: "nat \<Rightarrow> bool" where
  "is_surrogate c = (0xD800 \<le> c \<and> c \<le> 0xDFFF)"

text \<open>A float whose exponent bits are all set is an infinity or a NaN.\<close>

fun nonfinite_float :: "'c pval \<Rightarrow> bool" where
  "nonfinite_float (PFloat w) = (take_bit 11 (drop_bit 52 w) = 2047)"
| "nonfinite_float (PList xs) = (\<exists>x \<in> set xs. nonfinite_float x)"
| "nonfinite_float (PDict kvs) = (\<exists>kv \<in> set kvs. nonfinite_float (snd kv))"
| "nonfinite_float _ = False"

record response_w =
  status_code_w :: nat
  content_w :: wval

text \<open>
  \<open>JSONResponse(status_code=..., content=...)\<close>; \<open>set_pval body\<close> is the set of the code
  points of all the strings in the body, keys included.
\<close>

definition JSONResponse :: "nat \<Rightarrow> wval \<Rightarrow> error + response_w" where
  "JSONResponse code body =
     (if nonfinite_float body then Inl ValueError
      else if \<exists>c \<in> set_pval body. is_surrogate c then Inl UnicodeEncodeError
      else Inr \<lparr>status_code_w = code, content_w = body\<rparr>)"

definition b64decode_w :: "wstr \<Rightarrow> error + bytes" where
  "b64decode_w s =
     (if \<forall>c \<in> set s. c < 128 then a2b_base64 (map of_nat s) else Inl ValueError)"

definition strip_data_uri_w :: "wstr \<Rightarrow> wstr" where
  "strip_data_uri_w img_str =
     (if startswith img_str (wide ''data:'') then
        (let comma = str_find img_str (of_char CHR '','') in
         if comma \<noteq> - 1 then drop (nat (comma + 1)) img_str else img_str)
      else img_str)"

definition make_control_command_w :: "wval \<Rightarrow> (wstr \<times> wval) list" where
  "make_control_command_w lbl =
     (let cmd = [(wide ''action'', PStr (wide ''ACK''))] in
      if truthy lbl then dict_setitem cmd (wide ''labelReceived'') lbl else cmd)"

record Base64Upload_w =
  label_w :: "wstr option"
  image_w :: wstr

type_synonym save_call_w = "bytes \<times> wval"

definition upload_base64_w ::
  "Base64Upload_w \<Rightarrow> save_call_w list \<Rightarrow> datetime \<Rightarrow>
   error + (response_w \<times> save_call_w list)" where
  "upload_base64_w payload background_tasks now =
     (let img_str = strip_data_uri_w (image_w payload) in
      case b64decode_w img_str of
        Inl e \<Rightarrow>
          (case JSONResponse 400 (PDict [(wide ''error'', PStr (wide ''Invalid base64 image''))]) of
             Inl e' \<Rightarrow> Inl e'
           | Inr r \<Rightarrow> Inr (r, background_tasks))
      | Inr image_bytes \<Rightarrow>
          (let background_tasks =
                 background_tasks @ [(image_bytes, optional_str (label_w payload))] in
           case process_image_bytes image_bytes of
             Inl e \<Rightarrow> Inl e
           | Inr _ \<Rightarrow>
               (let cmd = make_control_command_w (optional_str (label_w payload));
                    response =
                      PDict [(wide ''command'', PDict cmd),
                             (wide ''commandSentAt'', PStr (wide (current_iso_timestamp now)))]
                in case JSONResponse 200 response of
                     Inl e \<Rightarrow> Inl e
                   | Inr r \<Rightarrow> Inr (r, background_tasks))))"

definition upload_form_w ::
  "save_call_w list \<Rightarrow> wstr option \<Rightarrow> error + bytes \<Rightarrow> datetime \<Rightarrow>
   error + (response_w \<times> save_call_w list)" where
  "upload_form_w background_tasks lbl read_result now =
     (case read_result of
        Inl e \<Rightarrow>
          (case JSONResponse 500
                  (PDict [(wide ''error'', PStr (wide ''Failed to read uploaded file''))]) of
             Inl e' \<Rightarrow> Inl e'
           | Inr r \<Rightarrow> Inr (r, background_tasks))
      | Inr contents \<Rightarrow>
          (let background_tasks = background_tasks @ [(contents, optional_str lbl)] in
           case process_image_bytes contents of
             Inl e \<Rightarrow> Inl e
           | Inr _ \<Rightarrow>
               (let cmd = make_control_command_w (optional_str lbl);
                    response =
                      PDict [(wide ''command'', PDict cmd),
                             (wide ''commandSentAt'', PStr (wide (current_iso_timestamp now)))]
                in case JSONResponse 200 response of
                     Inl e \<Rightarrow> Inl e
                   | Inr r \<Rightarrow> Inr (r, background_tasks))))"

text \<open>A value on 8-bit strings as the same value on lists of code points.\<close>

definition widen :: "pyval \<Rightarrow> wval" where
  "widen v = map_pval of_char v"

subsection \<open>Observations and example inputs\<close>

text \<open>The field \<open>k\<close> of the \<open>command\<close> object of a response body, if it is there.\<close>

definition command_field :: "pyval \<Rightarrow> string \<Rightarrow> pyval option" where
  "command_field body k =
     (case body of
        PDict kvs \<Rightarrow>
          (case map_of kvs ''command'' of Some (PDict cmd) \<Rightarrow> map_of cmd k | _ \<Rightarrow> None)
      | _ \<Rightarrow> None)"

text \<open>
  The characters that \<open>a2b_base64\<close> does not skip: the 64 of the alphabet and the pad.
\<close>

definition in_alphabet :: "8 word \<Rightarrow> bool" where
  "in_alphabet c = (table_a2b_base64 c < 64 \<or> c = BASE64_PAD)"

definition data_chars :: "string \<Rightarrow> nat" where
  "data_chars s = length (filter (\<lambda>c. table_a2b_base64 (of_char c) < 64) s)"

definition example_now :: datetime where
  "example_now =
     \<lparr>year = 2024, month = 1, day = 2, hour = 3, minute = 4, second = 5, microsecond = 0\<rparr>"

definition example_cfg :: config where
  "example_cfg = \<lparr>STORE_IMAGES = True, module_parent = Path ''/srv/app''\<rparr>"

text \<open>
  Two file systems for the examples: one that stores every write in a list of files,
  one whose every write fails (a full or read-only disk).
\<close>

definition write_ok :: "path \<Rightarrow> bytes \<Rightarrow> (path \<times> bytes) list \<Rightarrow> error + (path \<times> bytes) list" where
  "write_ok p b fs = Inr ((p, b) # filter (\<lambda>f. fst f \<noteq> p) fs)"

definition write_fails :: "path \<Rightarrow> bytes \<Rightarrow> (path \<times> bytes) list \<Rightarrow> error + (path \<times> bytes) list" where
  "write_fails p b fs = Inl OSError"

text \<open>A formatter for the values that \<open>format_value\<close> leaves open; the examples use none.\<close>

definition no_other :: "pyval \<Rightarrow> string" where
  "no_other v = []"

text \<open>
  A stand-in for \<open>json.loads\<close> that knows three texts: \<open>{"image": 123}\<close>,
  \<open>{"label": "a", "image": "QUJD"}\<close> and \<open>{"image": "Q"}\<close>.
\<close>

definition quoted :: "string \<Rightarrow> string" where
  "quoted s = CHR 0x22 # s @ [CHR 0x22]"

definition text_image_123 :: string where
  "text_image_123 = ''{'' @ quoted ''image'' @ '': 123}''"

definition text_label_a :: string where
  "text_label_a =
     ''{'' @ quoted ''label'' @ '': '' @ quoted ''a'' @ '', '' @
     quoted ''image'' @ '': '' @ quoted ''QUJD'' @ ''}''"

definition text_image_Q :: string where
  "text_image_Q = ''{'' @ quoted ''image'' @ '': '' @ quoted ''Q'' @ ''}''"

definition example_loads :: "string \<Rightarrow> error + pyval" where
  "example_loads txt =
     (if txt = text_image_123 then Inr (PDict [(''image'', PInt 123)])
      else if txt = text_label_a
        then Inr (PDict [(''label'', PStr ''a''), (''image'', PStr ''QUJD'')])
      else if txt = text_image_Q then Inr (PDict [(''image'', PStr ''Q'')])
      else Inl JSONDecodeError)"

definition text_frame :: "string \<Rightarrow> ws_message" where
  "text_frame txt = \<lparr>msg_type = ''websocket.receive'', msg_text = Some txt, msg_bytes = None\<rparr>"

definition binary_frame :: "bytes \<Rightarrow> ws_message" where
  "binary_frame b = \<lparr>msg_type = ''websocket.receive'', msg_text = None, msg_bytes = Some b\<rparr>"

definition new_conn :: ws_conn where
  "new_conn = \<lparr>accepted = True, sent = [], tasks = []\<rparr>"

section \<open>Properties\<close>

subsection \<open>Timestamps are well formed\<close>

lemma zpad2: "zpad 2 n = [digit (n div 10 mod 10), digit (n mod 10)]"
  by (simp add: numeral_2_eq_2)

lemma four_Suc: "(4::nat) = Suc (Suc (Suc (Suc 0)))"
  by simp

lemma six_Suc: "(6::nat) = Suc (Suc (Suc (Suc (Suc (Suc 0)))))"
  by simp

lemma zpad4:
  "zpad 4 n = [digit (n div 10 div 10 div 10 mod 10), digit (n div 10 div 10 mod 10),
               digit (n div 10 mod 10), digit (n mod 10)]"
  by (subst four_Suc) simp

lemma zpad6:
  "zpad 6 n = [digit (n div 10 div 10 div 10 div 10 div 10 mod 10),
               digit (n div 10 div 10 div 10 div 10 mod 10),
               digit (n div 10 div 10 div 10 mod 10), digit (n div 10 div 10 mod 10),
               digit (n div 10 mod 10), digit (n mod 10)]"
  by (subst six_Suc) simp

lemma of_char_digit: "k < 10 \<Longrightarrow> (of_char (digit k) :: nat) = 48 + k"
  by (simp add: digit_def)

lemma is_digit_digit: "is_digit (digit (k mod 10))"
  by (simp add: is_digit_def of_char_digit)

lemma digits_val2: "n < 100 \<Longrightarrow> digits_val [digit (n div 10 mod 10), digit (n mod 10)] = n"
  by (simp add: digits_val_def of_char_digit)

lemma isoformat_cases:
  "isoformat dt =
     zpad 4 (year dt) @ ''-'' @ zpad 2 (month dt) @ ''-'' @ zpad 2 (day dt) @ ''T'' @
     zpad 2 (hour dt) @ '':'' @ zpad 2 (minute dt) @ '':'' @ zpad 2 (second dt) @ ''+00:00''
   \<or> isoformat dt =
     zpad 4 (year dt) @ ''-'' @ zpad 2 (month dt) @ ''-'' @ zpad 2 (day dt) @ ''T'' @
     zpad 2 (hour dt) @ '':'' @ zpad 2 (minute dt) @ '':'' @ zpad 2 (second dt) @ ''.'' @
     zpad 6 (microsecond dt) @ ''+00:00''"
  by (simp add: isoformat_def)

lemma isoformat_shape:
  "matches_pat ''9999-99-99T99:99:99+00:00'' (isoformat dt) \<or>
   matches_pat ''9999-99-99T99:99:99.999999+00:00'' (isoformat dt)"
  using isoformat_cases [of dt]
  by (auto simp add: zpad2 zpad4 zpad6 is_digit_digit)

lemma isoformat_fields:
  assumes "valid_datetime dt"
  shows "field (isoformat dt) 5 2 = month dt" "field (isoformat dt) 8 2 = day dt"
    "field (isoformat dt) 11 2 = hour dt" "field (isoformat dt) 14 2 = minute dt"
    "field (isoformat dt) 17 2 = second dt"
  using assms
  by (simp_all add: valid_datetime_def isoformat_def field_def zpad2 zpad4 digits_val2)

lemma isoformat_well_formed: "valid_datetime dt \<Longrightarrow> is_iso8601_utc (isoformat dt)"
  using isoformat_shape [of dt]
  by (simp add: is_iso8601_utc_def isoformat_fields) (simp add: valid_datetime_def)

lemma str_nat_digit: "n < 10 \<Longrightarrow> str_nat n = [digit n]"
  by (subst str_nat.simps) simp

lemma str_nat_step: "10 \<le> n \<Longrightarrow> str_nat n = str_nat (n div 10) @ [digit (n mod 10)]"
  by (subst str_nat.simps) simp

lemma str_nat_four_digits: "1000 \<le> n \<Longrightarrow> n \<le> 9999 \<Longrightarrow> str_nat n = zpad 4 n"
proof -
  assume lo: "1000 \<le> n" and hi: "n \<le> 9999"
  from lo have a: "10 \<le> n" "10 \<le> n div 10" "10 \<le> n div 10 div 10"
    by arith+
  from hi have b: "n div 10 div 10 div 10 < 10"
    by arith
  then have c: "n div 10 div 10 div 10 mod 10 = n div 10 div 10 div 10"
    by simp
  show ?thesis
    by (simp add: str_nat_step [OF a(1)] str_nat_step [OF a(2)] str_nat_step [OF a(3)]
        str_nat_digit [OF b] zpad4 c)
qed

lemma strftime_compact_shape:
  "valid_datetime dt \<Longrightarrow> 1000 \<le> year dt \<Longrightarrow>
   matches_pat ''99999999T999999Z'' (strftime_compact dt)"
  by (simp add: strftime_compact_def valid_datetime_def str_nat_four_digits zpad2 zpad4
      is_digit_digit)

lemma valid_example_now: "valid_datetime example_now"
  by (simp add: valid_datetime_def example_now_def)

lemma isoformat_example: "isoformat example_now = ''2024-01-02T03:04:05+00:00''"
  by code_simp

lemma strftime_example: "strftime_compact example_now = ''20240102T030405Z''"
  by code_simp

subsection \<open>The handlers, step by step\<close>

lemma upload_base64_eq:
  "upload_base64 payload bt now =
     (case b64decode (strip_data_uri (image' payload)) of
        Inl e \<Rightarrow>
          Inr (\<lparr>status_code = 400,
                content = PDict [(''error'', PStr ''Invalid base64 image'')]\<rparr>, bt)
      | Inr b \<Rightarrow>
          Inr (\<lparr>status_code = 200,
                content = ack_response (optional_str (label payload)) now\<rparr>,
               bt @ [(b, optional_str (label payload))]))"
  by (simp add: upload_base64_def process_image_bytes_def split: sum.split)

lemma upload_form_eq:
  "upload_form bt lbl read_result now =
     (case read_result of
        Inl e \<Rightarrow>
          Inr (\<lparr>status_code = 500,
                content = PDict [(''error'', PStr ''Failed to read uploaded file'')]\<rparr>, bt)
      | Inr contents \<Rightarrow>
          Inr (\<lparr>status_code = 200, content = ack_response (optional_str lbl) now\<rparr>,
               bt @ [(contents, optional_str lbl)]))"
  by (simp add: upload_form_def process_image_bytes_def split: sum.split)

lemma ws_iteration_eq:
  "ws_iteration loads data now ws =
     (if msg_type data = ''websocket.receive'' then
        (case msg_text data of
           Some txt \<Rightarrow>
             (case decode_text_frame loads txt of
                Inl e \<Rightarrow> Inr (Continue, send_json ws malformed_reply)
              | Inr NotAString \<Rightarrow> Inr (Continue, send_json ws invalid_format_reply)
              | Inr (Decoded b l) \<Rightarrow>
                  Inr (Continue, send_json (create_task ws (b, l)) (ack_response l now)))
         | None \<Rightarrow>
             (case msg_bytes data of
                Some b \<Rightarrow>
                  Inr (Continue, send_json (create_task ws (b, PNone)) (ack_response PNone now))
              | None \<Rightarrow> Inr (Continue, ws)))
      else if msg_type data = ''websocket.disconnect'' then Inr (Break, ws)
      else Inr (Continue, ws))"
  by (simp add: ws_iteration_def process_image_bytes_def
      split: sum.split option.split text_outcome.split)

lemma ack_response_eq:
  "ack_response lbl now =
     PDict [(''command'', PDict (make_control_command lbl)),
            (''commandSentAt'', PStr (isoformat now))]"
  by (simp add: ack_response_def current_iso_timestamp_def)

lemma make_control_command_eq:
  "make_control_command lbl =
     (if truthy lbl then [(''action'', PStr ''ACK''), (''labelReceived'', lbl)]
      else [(''action'', PStr ''ACK'')])"
  by (simp add: make_control_command_def)

lemma label_received_ack:
  "command_field (ack_response lbl now) ''labelReceived'' = (if truthy lbl then Some lbl else None)"
  by (simp add: command_field_def ack_response_eq make_control_command_eq)

lemma action_ack: "command_field (ack_response lbl now) ''action'' = Some (PStr ''ACK'')"
  by (simp add: command_field_def ack_response_eq make_control_command_eq)

lemma truthy_optional_str: "truthy (optional_str l) \<longleftrightarrow> (\<exists>s. l = Some s \<and> s \<noteq> [])"
  by (cases l) simp_all

lemma b64decode_QUJD: "b64decode (strip_data_uri ''QUJD'') = Inr [65, 66, 67]"
  by code_simp

lemma b64decode_not_base64: "b64decode (strip_data_uri ''not-base64-@@@'') = Inl BinasciiError"
  by code_simp

subsection \<open>The processing hook\<close>

text \<open>
  Claim C8. The processing hook \<open>process_image_bytes\<close> is a no-op for every input: it
  returns nothing and cannot fail, and what each handler answers is what its body
  yields with the call of the hook deleted: the right-hand sides below are the bodies
  of \<open>upload_base64\<close>, \<open>upload_form\<close> and of the WebSocket loop without that call.
\<close>

theorem process_image_bytes_noop:
  "process_image_bytes image_bytes = Inr () \<and>
   upload_base64 payload bt now =
     (case b64decode (strip_data_uri (image' payload)) of
        Inl e \<Rightarrow>
          Inr (\<lparr>status_code = 400,
                content = PDict [(''error'', PStr ''Invalid base64 image'')]\<rparr>, bt)
      | Inr b \<Rightarrow>
          Inr (\<lparr>status_code = 200,
                content = ack_response (optional_str (label payload)) now\<rparr>,
               bt @ [(b, optional_str (label payload))])) \<and>
   upload_form bt lbl read_result now =
     (case read_result of
        Inl e \<Rightarrow>
          Inr (\<lparr>status_code = 500,
                content = PDict [(''error'', PStr ''Failed to read uploaded file'')]\<rparr>, bt)
      | Inr contents \<Rightarrow>
          Inr (\<lparr>status_code = 200, content = ack_response (optional_str lbl) now\<rparr>,
               bt @ [(contents, optional_str lbl)])) \<and>
   ws_iteration loads data now ws =
     (if msg_type data = ''websocket.receive'' then
        (case msg_text data of
           Some txt \<Rightarrow>
             (case decode_text_frame loads txt of
                Inl e \<Rightarrow> Inr (Continue, send_json ws malformed_reply)
              | Inr NotAString \<Rightarrow> Inr (Continue, send_json ws invalid_format_reply)
              | Inr (Decoded b l) \<Rightarrow>
                  Inr (Continue, send_json (create_task ws (b, l)) (ack_response l now)))
         | None \<Rightarrow>
             (case msg_bytes data of
                Some b \<Rightarrow>
                  Inr (Continue, send_json (create_task ws (b, PNone)) (ack_response PNone now))
              | None \<Rightarrow> Inr (Continue, ws)))
      else if msg_type data = ''websocket.disconnect'' then Inr (Break, ws)
      else Inr (Continue, ws))"
  using upload_base64_eq [of payload bt now] upload_form_eq [of bt lbl read_result now]
    ws_iteration_eq [of loads data now ws]
  by (simp add: process_image_bytes_def)

theorem process_image_bytes_noop_witness:
  "process_image_bytes [65, 66, 67] = Inr () \<and>
   upload_base64 \<lparr>label = Some ''cam1'', image' = ''QUJD''\<rparr> [] example_now =
     Inr (\<lparr>status_code = 200,
           content = PDict [(''command'', PDict [(''action'', PStr ''ACK''),
                                                  (''labelReceived'', PStr ''cam1'')]),
                            (''commandSentAt'', PStr ''2024-01-02T03:04:05+00:00'')]\<rparr>,
          [([65, 66, 67], PStr ''cam1'')])"
  using process_image_bytes_noop
    [of "[65, 66, 67]" "\<lparr>label = Some ''cam1'', image' = ''QUJD''\<rparr>" "[]" example_now]
  by (simp add: b64decode_QUJD ack_response_eq make_control_command_eq isoformat_example)

subsection \<open>The label in the acknowledgment\<close>

text \<open>
  \<open>make_control_command\<close> tests \<open>if label:\<close>, Python's truth value, and \<open>save_image\<close> tests
  the label the same way. An empty label is therefore treated like no label: a request
  with the label \<open>""\<close>, which is not null, is answered without \<open>labelReceived\<close>.
\<close>

theorem labelReceived_empty_label_counterexample:
  "Some [] \<noteq> (None :: string option) \<and>
   upload_base64 \<lparr>label = Some [], image' = ''QUJD''\<rparr> [] example_now =
     Inr (\<lparr>status_code = 200,
           content = PDict [(''command'', PDict [(''action'', PStr ''ACK'')]),
                            (''commandSentAt'', PStr ''2024-01-02T03:04:05+00:00'')]\<rparr>,
          [([65, 66, 67], PStr [])]) \<and>
   command_field
     (PDict [(''command'', PDict [(''action'', PStr ''ACK'')]),
             (''commandSentAt'', PStr ''2024-01-02T03:04:05+00:00'')]) ''labelReceived'' = None"
  by (simp add: upload_base64_eq b64decode_QUJD ack_response_eq make_control_command_eq
      isoformat_example command_field_def)

text \<open>
  Claim C1, as the code has it. On every transport that carries a label, the command of
  the acknowledgment contains \<open>labelReceived\<close> if and only if the label is true in
  Python's sense: for the string labels of the two HTTP endpoints, not null and not
  empty; for the WebSocket text frame, whose label is any JSON value, \<open>truthy\<close>. When
  the field is present its value is the label itself; otherwise the field is absent.
\<close>

theorem labelReceived_iff_nonempty:
  "(b64decode (strip_data_uri (image' payload)) = Inr image_bytes \<longrightarrow>
      upload_base64 payload bt now =
        Inr (\<lparr>status_code = 200, content = ack_response (optional_str (label payload)) now\<rparr>,
             bt @ [(image_bytes, optional_str (label payload))]) \<and>
      command_field (ack_response (optional_str (label payload)) now) ''labelReceived'' =
        (case label payload of
           None \<Rightarrow> None
         | Some s \<Rightarrow> if s \<noteq> [] then Some (PStr s) else None)) \<and>
   (read_result = Inr contents \<longrightarrow>
      upload_form bt lbl read_result now =
        Inr (\<lparr>status_code = 200, content = ack_response (optional_str lbl) now\<rparr>,
             bt @ [(contents, optional_str lbl)]) \<and>
      command_field (ack_response (optional_str lbl) now) ''labelReceived'' =
        (case lbl of
           None \<Rightarrow> None
         | Some s \<Rightarrow> if s \<noteq> [] then Some (PStr s) else None)) \<and>
   (msg_type data = ''websocket.receive'' \<and> msg_text data = Some txt \<and>
    decode_text_frame loads txt = Inr (Decoded image_bytes v) \<longrightarrow>
      ws_iteration loads data now ws =
        Inr (Continue, send_json (create_task ws (image_bytes, v)) (ack_response v now)) \<and>
      command_field (ack_response v now) ''labelReceived'' =
        (if truthy v then Some v else None))"
  by (cases "label payload"; cases lbl)
     (simp_all add: upload_base64_eq upload_form_eq ws_iteration_eq label_received_ack)

theorem labelReceived_iff_nonempty_witness:
  "b64decode (strip_data_uri (image' \<lparr>label = Some ''cam1'', image' = ''QUJD''\<rparr>)) =
     Inr [65, 66, 67] \<and>
   upload_base64 \<lparr>label = Some ''cam1'', image' = ''QUJD''\<rparr> [] example_now =
     Inr (\<lparr>status_code = 200, content = ack_response (PStr ''cam1'') example_now\<rparr>,
          [([65, 66, 67], PStr ''cam1'')]) \<and>
   command_field (ack_response (PStr ''cam1'') example_now) ''labelReceived'' =
     Some (PStr ''cam1'')"
  using labelReceived_iff_nonempty
    [of "\<lparr>label = Some ''cam1'', image' = ''QUJD''\<rparr>" "[65, 66, 67]" "[]" example_now]
  by (simp add: b64decode_QUJD)

subsection \<open>The HTTP endpoints\<close>

text \<open>
  Claim C2. When the image string of a POST to \<open>/uploadBase64\<close> fails base64 decoding,
  the answer has status 400 and the body \<open>{"error": "Invalid base64 image"}\<close>, which
  holds no command, and the background tasks are the ones the handler was given: no
  call of \<open>save_image\<close> is added, whatever the storage flag.
\<close>

theorem upload_base64_invalid_400:
  "b64decode (strip_data_uri (image' payload)) = Inl e \<Longrightarrow>
   upload_base64 payload bt now =
     Inr (\<lparr>status_code = 400,
           content = PDict [(''error'', PStr ''Invalid base64 image'')]\<rparr>, bt) \<and>
   command_field (PDict [(''error'', PStr ''Invalid base64 image'')]) ''action'' = None"
  by (simp add: upload_base64_eq command_field_def)

theorem upload_base64_invalid_400_witness:
  "b64decode (strip_data_uri (image' \<lparr>label = Some ''cam1'', image' = ''not-base64-@@@''\<rparr>)) =
     Inl BinasciiError \<and>
   upload_base64 \<lparr>label = Some ''cam1'', image' = ''not-base64-@@@''\<rparr> [] example_now =
     Inr (\<lparr>status_code = 400,
           content = PDict [(''error'', PStr ''Invalid base64 image'')]\<rparr>, [])"
proof -
  have h: "b64decode (strip_data_uri
      (image' \<lparr>label = Some ''cam1'', image' = ''not-base64-@@@''\<rparr>)) = Inl BinasciiError"
    by (simp add: b64decode_not_base64)
  from upload_base64_invalid_400 [OF h, of "[]" example_now] h show ?thesis
    by simp
qed

lemma of_char_below_256: "(of_char c :: nat) < 256"
proof -
  have "(of_char c :: nat) mod 256 < 256"
    by (rule mod_less_divisor) simp
  then show ?thesis
    by simp
qed

lemma wide_no_surrogate: "c \<in> set (wide s) \<Longrightarrow> \<not> is_surrogate c"
proof -
  assume "c \<in> set (wide s)"
  then obtain x where "c = of_char x"
    by (auto simp add: wide_def)
  with of_char_below_256 [of x] show ?thesis
    unfolding is_surrogate_def by linarith
qed

lemma wide_action_neq: "wide ''action'' \<noteq> wide ''labelReceived''"
  by (simp add: wide_def)

lemma no_surrogate_in_wide: "(\<exists>c \<in> set (wide s). is_surrogate c) = False"
  using wide_no_surrogate by blast

lemma JSONResponse_ack:
  "(\<forall>s. l = Some s \<longrightarrow> (\<forall>c \<in> set s. \<not> is_surrogate c)) \<Longrightarrow>
   JSONResponse 200
     (PDict [(wide ''command'', PDict (make_control_command_w (optional_str l))),
             (wide ''commandSentAt'', PStr (wide ts))]) =
   Inr \<lparr>status_code_w = 200,
        content_w =
          PDict [(wide ''command'', PDict (make_control_command_w (optional_str l))),
                 (wide ''commandSentAt'', PStr (wide ts))]\<rparr>"
  by (cases l)
     (auto simp add: JSONResponse_def make_control_command_w_def Let_def wide_action_neq
        dest: wide_no_surrogate)

lemma action_ack_w:
  "map_of (make_control_command_w v) (wide ''action'') = Some (PStr (wide ''ACK''))"
  by (simp add: make_control_command_w_def Let_def wide_action_neq)

lemma b64decode_w_QUJD: "b64decode_w (strip_data_uri_w (wide ''QUJD'')) = Inr [65, 66, 67]"
  by code_simp

text \<open>
  A label can hold a lone surrogate. For the JSON body with the label U+D800 and the
  image \<open>QUJD\<close> the image decodes to the three bytes \<open>ABC\<close>, a non-empty sequence, and
  then \<open>JSONResponse\<close> cannot encode the label: the handler raises
  \<open>UnicodeEncodeError\<close> and returns no 200 answer.
\<close>

theorem surrogate_label_counterexample:
  "b64decode_w (strip_data_uri_w (wide ''QUJD'')) = Inr [65, 66, 67] \<and>
   [65, 66, 67] \<noteq> ([] :: bytes) \<and>
   upload_base64_w \<lparr>label_w = Some [0xD800], image_w = wide ''QUJD''\<rparr> [] example_now =
     Inl UnicodeEncodeError"
  by (simp add: upload_base64_w_def b64decode_w_QUJD process_image_bytes_def
      make_control_command_w_def Let_def JSONResponse_def no_surrogate_in_wide is_surrogate_def)

text \<open>
  Claim C3, as the code has it. When the image payload decodes to a non-empty byte
  sequence (JSON endpoint) or is read as one (multipart endpoint) and the label, if
  there is one, holds no surrogate code point, so that it can be encoded as UTF-8, the
  answer has status 200 and a body with exactly the keys \<open>command\<close> and
  \<open>commandSentAt\<close>; the action of the command is \<open>ACK\<close> and the timestamp is a
  well-formed ISO-8601 UTC timestamp. The clock reading is a valid \<open>datetime\<close>, as every
  Python \<open>datetime\<close> is.
\<close>

theorem upload_ok_200_encodable:
  "valid_datetime now \<Longrightarrow>
   (b64decode_w (strip_data_uri_w (image_w payload)) = Inr image_bytes \<and> image_bytes \<noteq> [] \<and>
    (\<forall>s. label_w payload = Some s \<longrightarrow> (\<forall>c \<in> set s. \<not> is_surrogate c)) \<longrightarrow>
      upload_base64_w payload bt now =
        Inr (\<lparr>status_code_w = 200,
              content_w =
                PDict [(wide ''command'',
                        PDict (make_control_command_w (optional_str (label_w payload)))),
                       (wide ''commandSentAt'', PStr (wide (current_iso_timestamp now)))]\<rparr>,
             bt @ [(image_bytes, optional_str (label_w payload))])) \<and>
   (read_result = Inr contents \<and> contents \<noteq> [] \<and>
    (\<forall>s. lbl = Some s \<longrightarrow> (\<forall>c \<in> set s. \<not> is_surrogate c)) \<longrightarrow>
      upload_form_w bt lbl read_result now =
        Inr (\<lparr>status_code_w = 200,
              content_w =
                PDict [(wide ''command'', PDict (make_control_command_w (optional_str lbl))),
                       (wide ''commandSentAt'', PStr (wide (current_iso_timestamp now)))]\<rparr>,
             bt @ [(contents, optional_str lbl)])) \<and>
   map_of (make_control_command_w v) (wide ''action'') = Some (PStr (wide ''ACK'')) \<and>
   is_iso8601_utc (current_iso_timestamp now)"
  by (simp add: upload_base64_w_def upload_form_w_def process_image_bytes_def JSONResponse_ack
      action_ack_w current_iso_timestamp_def isoformat_well_formed)

theorem upload_ok_200_encodable_witness:
  "valid_datetime example_now \<and>
   b64decode_w (strip_data_uri_w (image_w \<lparr>label_w = Some [26085, 26412],
      image_w = wide ''QUJD''\<rparr>)) = Inr [65, 66, 67] \<and>
   \<not> is_surrogate 26085 \<and> \<not> is_surrogate 26412 \<and>
   upload_base64_w \<lparr>label_w = Some [26085, 26412], image_w = wide ''QUJD''\<rparr> [] example_now =
     Inr (\<lparr>status_code_w = 200,
           content_w =
             PDict [(wide ''command'',
                     PDict [(wide ''action'', PStr (wide ''ACK'')),
                            (wide ''labelReceived'', PStr [26085, 26412])]),
                    (wide ''commandSentAt'', PStr (wide ''2024-01-02T03:04:05+00:00''))]\<rparr>,
          [([65, 66, 67], PStr [26085, 26412])]) \<and>
   upload_form_w [] None (Inr [255, 216]) example_now =
     Inr (\<lparr>status_code_w = 200,
           content_w =
             PDict [(wide ''command'', PDict [(wide ''action'', PStr (wide ''ACK''))]),
                    (wide ''commandSentAt'', PStr (wide ''2024-01-02T03:04:05+00:00''))]\<rparr>,
          [([255, 216], PNone)]) \<and>
   is_iso8601_utc ''2024-01-02T03:04:05+00:00''"
proof -
  have enc: "\<forall>s. Some [26085, 26412] = Some s \<longrightarrow> (\<forall>c \<in> set s. \<not> is_surrogate c)"
    by (simp add: is_surrogate_def)
  from upload_ok_200_encodable [OF valid_example_now,
      of "\<lparr>label_w = Some [26085, 26412], image_w = wide ''QUJD''\<rparr>" "[65, 66, 67]" "[]"
         "Inr [255, 216]" "[255, 216]" None]
    enc
  show ?thesis
    by (simp add: valid_example_now b64decode_w_QUJD make_control_command_w_def Let_def
        wide_action_neq current_iso_timestamp_def isoformat_example is_surrogate_def)
qed

subsection \<open>The two embeddings of the HTTP handlers agree\<close>

text \<open>
  On a label and an image string of code points below 256 the handlers on lists of
  code points do what the handlers on 8-bit strings do: there the rendering cannot fail.
\<close>

lemma wide_eq_iff: "wide s = wide p \<longleftrightarrow> s = p"
  by (simp add: wide_def inj_map_eq_map inj_def)

lemma startswith_wide: "startswith (wide s) (wide p) = startswith s p"
proof -
  have "take (length (wide p)) (wide s) = wide (take (length p) s)"
    by (simp add: wide_def take_map)
  then show ?thesis
    by (simp only: startswith_def wide_eq_iff)
qed

lemma find_from_wide: "find_from (wide s) (of_char c) i = find_from s c i"
  by (induction s arbitrary: i) (simp_all add: wide_def)

lemma drop_wide: "drop n (wide s) = wide (drop n s)"
  by (simp add: wide_def drop_map)

lemma strip_data_uri_wide: "strip_data_uri_w (wide s) = wide (strip_data_uri s)"
  by (simp only: strip_data_uri_w_def strip_data_uri_def startswith_wide str_find_def
      find_from_wide Let_def drop_wide if_distrib [of wide] cong: if_cong)

lemma b64decode_wide: "b64decode_w (wide s) = b64decode s"
  by (simp add: b64decode_w_def b64decode_def is_ascii_def wide_def comp_def of_nat_of_char)

lemma JSONResponse_wide_error:
  "JSONResponse code (PDict [(wide k, PStr (wide m))]) =
     Inr \<lparr>status_code_w = code, content_w = PDict [(wide k, PStr (wide m))]\<rparr>"
  by (auto simp add: JSONResponse_def dest: wide_no_surrogate)

lemma widen_ack:
  "widen (ack_response (optional_str l) now) =
     PDict [(wide ''command'', PDict (make_control_command_w (optional_str (map_option wide l)))),
            (wide ''commandSentAt'', PStr (wide (current_iso_timestamp now)))]"
  by (cases l)
     (simp_all add: widen_def ack_response_def make_control_command_def
        make_control_command_w_def Let_def wide_def)

lemma wide_label_encodable:
  "\<forall>s. map_option wide l = Some s \<longrightarrow> (\<forall>c \<in> set s. \<not> is_surrogate c)"
  by (cases l) (auto dest: wide_no_surrogate)

lemma upload_base64_w_agrees:
  "upload_base64_w \<lparr>label_w = map_option wide l, image_w = wide s\<rparr>
       (map (map_prod id widen) bt) now =
     (case upload_base64 \<lparr>label = l, image' = s\<rparr> bt now of
        Inl e \<Rightarrow> Inl e
      | Inr (r, calls) \<Rightarrow>
          Inr (\<lparr>status_code_w = status_code r, content_w = widen (content r)\<rparr>,
               map (map_prod id widen) calls))"
proof (cases "b64decode (strip_data_uri s)")
  case (Inl e)
  then show ?thesis
    by (simp add: upload_base64_w_def upload_base64_eq strip_data_uri_wide b64decode_wide
        JSONResponse_wide_error) (simp add: widen_def wide_def)
next
  case (Inr b)
  have lbl: "widen (optional_str l) = optional_str (map_option wide l)"
    by (cases l) (simp_all add: widen_def wide_def)
  from Inr show ?thesis
    by (simp add: upload_base64_w_def upload_base64_eq strip_data_uri_wide b64decode_wide
        process_image_bytes_def JSONResponse_ack [OF wide_label_encodable] widen_ack lbl)
qed

lemma upload_form_w_agrees:
  "upload_form_w (map (map_prod id widen) bt) (map_option wide l) read_result now =
     (case upload_form bt l read_result now of
        Inl e \<Rightarrow> Inl e
      | Inr (r, calls) \<Rightarrow>
          Inr (\<lparr>status_code_w = status_code r, content_w = widen (content r)\<rparr>,
               map (map_prod id widen) calls))"
proof (cases read_result)
  case (Inl e)
  then show ?thesis
    by (simp add: upload_form_w_def upload_form_eq JSONResponse_wide_error)
       (simp add: widen_def wide_def)
next
  case (Inr b)
  have lbl: "widen (optional_str l) = optional_str (map_option wide l)"
    by (cases l) (simp_all add: widen_def wide_def)
  from Inr show ?thesis
    by (simp add: upload_form_w_def upload_form_eq process_image_bytes_def
        JSONResponse_ack [OF wide_label_encodable] widen_ack lbl)
qed

subsection \<open>Binary frames\<close>

text \<open>
  Claim C6. For every binary frame the payload itself is the image (it is what the
  scheduled \<open>save_image\<close> call gets, with no label), and the reply is an acknowledgment
  whose command has no \<open>labelReceived\<close>; the loop continues.
\<close>

theorem binary_frame_ack_without_label:
  "msg_type data = ''websocket.receive'' \<and> msg_text data = None \<and>
   msg_bytes data = Some image_bytes \<Longrightarrow>
   ws_iteration loads data now ws =
     Inr (Continue,
          ws\<lparr>sent := sent ws @
                  [PDict [(''command'', PDict [(''action'', PStr ''ACK'')]),
                          (''commandSentAt'', PStr (current_iso_timestamp now))]],
             tasks := tasks ws @ [(image_bytes, PNone)]\<rparr>) \<and>
   command_field
     (PDict [(''command'', PDict [(''action'', PStr ''ACK'')]),
             (''commandSentAt'', PStr (current_iso_timestamp now))]) ''labelReceived'' = None"
  by (simp add: ws_iteration_eq ack_response_eq make_control_command_eq send_json_def
      create_task_def current_iso_timestamp_def command_field_def)

theorem binary_frame_ack_without_label_witness:
  "msg_type (binary_frame [255, 216]) = ''websocket.receive'' \<and>
   msg_text (binary_frame [255, 216]) = None \<and>
   msg_bytes (binary_frame [255, 216]) = Some [255, 216] \<and>
   ws_iteration example_loads (binary_frame [255, 216]) example_now new_conn =
     Inr (Continue,
          \<lparr>accepted = True,
           sent = [PDict [(''command'', PDict [(''action'', PStr ''ACK'')]),
                          (''commandSentAt'', PStr ''2024-01-02T03:04:05+00:00'')]],
           tasks = [([255, 216], PNone)]\<rparr>)"
proof -
  have h: "msg_type (binary_frame [255, 216]) = ''websocket.receive'' \<and>
      msg_text (binary_frame [255, 216]) = None \<and>
      msg_bytes (binary_frame [255, 216]) = Some [255, 216]"
    by (simp add: binary_frame_def)
  from binary_frame_ack_without_label [OF h, of example_loads example_now new_conn] h
  show ?thesis
    by (simp add: new_conn_def current_iso_timestamp_def isoformat_example)
qed

subsection \<open>The data URI prefix\<close>

lemma find_from_absent: "c \<notin> set s \<Longrightarrow> find_from s c i = - 1"
  by (induction s arbitrary: i) auto

lemma find_from_first:
  "c \<notin> set pre \<Longrightarrow> find_from (pre @ c # rest) c i = i + int (length pre)"
  by (induction pre arbitrary: i) auto

lemma strip_no_comma: "CHR '','' \<notin> set s \<Longrightarrow> strip_data_uri s = s"
  by (simp add: strip_data_uri_def str_find_def find_from_absent)

lemma strip_not_data: "\<not> startswith s ''data:'' \<Longrightarrow> strip_data_uri s = s"
  by (simp add: strip_data_uri_def)

lemma strip_first_comma:
  "startswith (pre @ CHR '','' # rest) ''data:'' \<Longrightarrow> CHR '','' \<notin> set pre \<Longrightarrow>
   strip_data_uri (pre @ CHR '','' # rest) = rest"
proof -
  assume a: "startswith (pre @ CHR '','' # rest) ''data:''" and b: "CHR '','' \<notin> set pre"
  have n: "nat (int (length pre) + 1) = Suc (length pre)"
    by simp
  from b have "str_find (pre @ CHR '','' # rest) CHR '','' = int (length pre)"
    by (simp add: str_find_def find_from_first)
  with a show ?thesis
    by (simp add: strip_data_uri_def n)
qed

lemma strip_jpeg_prefix: "strip_data_uri (''data:image/jpeg;base64,'' @ p) = p"
proof -
  have "strip_data_uri (''data:image/jpeg;base64'' @ CHR '','' # p) = p"
    by (rule strip_first_comma) (simp_all add: startswith_def)
  then show ?thesis by simp
qed

lemma decode_text_frame_str:
  "loads txt = Inr (PDict kvs) \<Longrightarrow> map_of kvs ''image'' = Some (PStr s) \<Longrightarrow>
   decode_text_frame loads txt =
     (case b64decode (strip_data_uri s) of
        Inl e \<Rightarrow> Inl e
      | Inr image_bytes \<Rightarrow>
          Inr (Decoded image_bytes (case map_of kvs ''label'' of None \<Rightarrow> PNone | Some v \<Rightarrow> v)))"
  by (simp add: decode_text_frame_def)

lemma b64decode_dataQUJD: "b64decode ''data:QUJD'' = Inr [117, 171, 90, 65, 66, 67]"
  by code_simp

text \<open>
  A string of base64 characters does not begin with \<open>data:\<close>, since the colon is not
  in the alphabet.
\<close>

lemma all_base64_not_data:
  "\<forall>c \<in> set p. in_alphabet (of_char c) \<Longrightarrow> \<not> startswith p ''data:''"
proof
  assume a: "\<forall>c \<in> set p. in_alphabet (of_char c)" and s: "startswith p ''data:''"
  from s have t: "take (length ''data:'') p = ''data:''"
    by (simp only: startswith_def)
  have "set (take (length ''data:'') p) \<subseteq> set p"
    by (rule set_take_subset)
  with t have "CHR '':'' \<in> set p"
    by auto
  with a have "in_alphabet (of_char CHR '':'')" by blast
  then show False by (simp add: in_alphabet_def table_a2b_base64_def BASE64_PAD_def)
qed

text \<open>
  Claim C10. If an image string begins with \<open>data:\<close> and contains no comma, nothing is
  stripped: the whole string, header included, is what \<open>b64decode\<close> gets, on the JSON
  endpoint and in a WebSocket text frame.
\<close>

theorem data_without_comma_not_stripped:
  "startswith s ''data:'' \<and> CHR '','' \<notin> set s \<Longrightarrow>
   strip_data_uri s = s \<and>
   upload_base64 \<lparr>label = lbl, image' = s\<rparr> bt now =
     (case b64decode s of
        Inl e \<Rightarrow>
          Inr (\<lparr>status_code = 400,
                content = PDict [(''error'', PStr ''Invalid base64 image'')]\<rparr>, bt)
      | Inr b \<Rightarrow>
          Inr (\<lparr>status_code = 200, content = ack_response (optional_str lbl) now\<rparr>,
               bt @ [(b, optional_str lbl)])) \<and>
   (loads txt = Inr (PDict kvs) \<and> map_of kvs ''image'' = Some (PStr s) \<longrightarrow>
      decode_text_frame loads txt =
        (case b64decode s of
           Inl e \<Rightarrow> Inl e
         | Inr b \<Rightarrow>
             Inr (Decoded b (case map_of kvs ''label'' of None \<Rightarrow> PNone | Some v \<Rightarrow> v))))"
  by (simp add: strip_no_comma upload_base64_eq decode_text_frame_str split: sum.split)

theorem data_without_comma_not_stripped_witness:
  "startswith ''data:QUJD'' ''data:'' \<and> CHR '','' \<notin> set ''data:QUJD'' \<and>
   strip_data_uri ''data:QUJD'' = ''data:QUJD'' \<and>
   upload_base64 \<lparr>label = None, image' = ''data:QUJD''\<rparr> [] example_now =
     Inr (\<lparr>status_code = 200, content = ack_response PNone example_now\<rparr>,
          [([117, 171, 90, 65, 66, 67], PNone)])"
proof -
  have h: "startswith ''data:QUJD'' ''data:'' \<and> CHR '','' \<notin> set ''data:QUJD''"
    by (simp add: startswith_def)
  from data_without_comma_not_stripped [OF h, of None "[]" example_now] h show ?thesis
    by (simp add: b64decode_dataQUJD)
qed

text \<open>
  Claim C4. For every payload \<open>p\<close> that does not itself begin with \<open>data:\<close> (every
  string of base64 characters is one, by \<open>all_base64_not_data\<close>) and every label, the
  input \<open>data:image/jpeg;base64,\<close> followed by \<open>p\<close> and the bare input \<open>p\<close> are stripped
  to the same string \<open>p\<close>, decode alike and get the same answer: the same HTTP response
  and scheduled task from \<open>upload_base64\<close>, the same step of the WebSocket loop for two
  text frames that differ in this prefix only.
\<close>

theorem data_uri_prefix_is_stripped:
  "\<not> startswith p ''data:'' \<Longrightarrow>
   strip_data_uri (''data:image/jpeg;base64,'' @ p) = p \<and>
   strip_data_uri p = p \<and>
   b64decode (strip_data_uri (''data:image/jpeg;base64,'' @ p)) = b64decode (strip_data_uri p) \<and>
   upload_base64 \<lparr>label = lbl, image' = ''data:image/jpeg;base64,'' @ p\<rparr> bt now =
     upload_base64 \<lparr>label = lbl, image' = p\<rparr> bt now \<and>
   (loads txt = Inr (PDict kvs) \<and> loads txt' = Inr (PDict kvs') \<and>
    map_of kvs ''image'' = Some (PStr (''data:image/jpeg;base64,'' @ p)) \<and>
    map_of kvs' ''image'' = Some (PStr p) \<and> map_of kvs ''label'' = map_of kvs' ''label'' \<longrightarrow>
      ws_iteration loads (text_frame txt) now ws = ws_iteration loads (text_frame txt') now ws)"
  by (simp add: strip_jpeg_prefix [simplified] strip_not_data upload_base64_eq ws_iteration_eq
      text_frame_def decode_text_frame_str split: sum.split)

theorem data_uri_prefix_is_stripped_witness:
  "\<not> startswith ''QUJD'' ''data:'' \<and>
   strip_data_uri ''data:image/jpeg;base64,QUJD'' = ''QUJD'' \<and>
   upload_base64 \<lparr>label = Some ''a'', image' = ''data:image/jpeg;base64,QUJD''\<rparr> [] example_now =
     upload_base64 \<lparr>label = Some ''a'', image' = ''QUJD''\<rparr> [] example_now"
proof -
  have h: "\<not> startswith ''QUJD'' ''data:''"
    by (simp add: startswith_def)
  from data_uri_prefix_is_stripped [OF h, of "Some ''a''" "[]" example_now] h show ?thesis
    by simp
qed

subsection \<open>Errors on the WebSocket\<close>

lemma decode_text_frame_loads_fails: "loads txt = Inl e \<Longrightarrow> decode_text_frame loads txt = Inl e"
  by (simp add: decode_text_frame_def)

lemma decode_text_frame_not_str:
  "loads txt = Inr (PDict kvs) \<Longrightarrow> map_of kvs ''image'' = Some v \<Longrightarrow> \<forall>s. v \<noteq> PStr s \<Longrightarrow>
   decode_text_frame loads txt = Inr NotAString"
  by (cases v) (simp_all add: decode_text_frame_def)

lemma decode_text_frame_b64_fails:
  "loads txt = Inr (PDict kvs) \<Longrightarrow> map_of kvs ''image'' = Some (PStr s) \<Longrightarrow>
   b64decode (strip_data_uri s) = Inl e \<Longrightarrow> decode_text_frame loads txt = Inl e"
  by (simp add: decode_text_frame_str)

lemma decode_text_frame_ok:
  "loads txt = Inr (PDict kvs) \<Longrightarrow> map_of kvs ''image'' = Some (PStr s) \<Longrightarrow>
   b64decode (strip_data_uri s) = Inr b \<Longrightarrow>
   decode_text_frame loads txt =
     Inr (Decoded b (case map_of kvs ''label'' of None \<Rightarrow> PNone | Some l \<Rightarrow> l))"
  by (simp add: decode_text_frame_str)

lemma example_loads_123: "example_loads text_image_123 = Inr (PDict [(''image'', PInt 123)])"
  by (simp add: example_loads_def)

lemma example_loads_a:
  "example_loads text_label_a = Inr (PDict [(''label'', PStr ''a''), (''image'', PStr ''QUJD'')])"
  by code_simp

lemma ws_iteration_malformed:
  "msg_type data = ''websocket.receive'' \<Longrightarrow> msg_text data = Some txt \<Longrightarrow>
   decode_text_frame loads txt = Inl e \<Longrightarrow>
   ws_iteration loads data t ws =
     Inr (Continue,
          ws\<lparr>sent := sent ws @
             [PDict [(''error'', PStr ''Malformed JSON or base64 decode error'')]]\<rparr>)"
  by (simp add: ws_iteration_eq send_json_def malformed_reply_def)

lemma ws_iteration_invalid_format:
  "msg_type data = ''websocket.receive'' \<Longrightarrow> msg_text data = Some txt \<Longrightarrow>
   decode_text_frame loads txt = Inr NotAString \<Longrightarrow>
   ws_iteration loads data t ws =
     Inr (Continue,
          ws\<lparr>sent := sent ws @
             [PDict [(''error'',
                PStr ''Invalid message format: 'image' must be base64 string'')]]\<rparr>)"
  by (simp add: ws_iteration_eq send_json_def invalid_format_reply_def)

lemma ws_iteration_decoded:
  "msg_type data = ''websocket.receive'' \<Longrightarrow> msg_text data = Some txt \<Longrightarrow>
   decode_text_frame loads txt = Inr (Decoded b l) \<Longrightarrow>
   ws_iteration loads data t ws =
     Inr (Continue,
          ws\<lparr>sent := sent ws @
                  [PDict [(''command'', PDict (make_control_command l)),
                          (''commandSentAt'', PStr (current_iso_timestamp t))]],
             tasks := tasks ws @ [(b, l)]\<rparr>)"
  by (simp add: ws_iteration_eq send_json_def create_task_def ack_response_def)

lemma error_then_valid:
  assumes bad: "ws_iteration loads bad t ws = Inr (Continue, ws\<lparr>sent := sent ws @ [reply]\<rparr>)"
    and good: "msg_type good = ''websocket.receive''" "msg_text good = Some txt'"
      "decode_text_frame loads txt' = Inr (Decoded b l)"
  shows "receive_loop loads ((bad, t) # rest) ws =
      receive_loop loads rest (ws\<lparr>sent := sent ws @ [reply]\<rparr>)"
    and "receive_loop loads [(bad, t)] ws = Inr (Receiving, ws\<lparr>sent := sent ws @ [reply]\<rparr>)"
    and "receive_loop loads [(bad, t), (good, t')] ws =
      Inr (Receiving,
           ws\<lparr>sent := sent ws @
                   [reply,
                    PDict [(''command'', PDict (make_control_command l)),
                           (''commandSentAt'', PStr (current_iso_timestamp t'))]],
              tasks := tasks ws @ [(b, l)]\<rparr>)"
    and "receive_loop loads [(good, t')] ws =
      Inr (Receiving,
           ws\<lparr>sent := sent ws @
                   [PDict [(''command'', PDict (make_control_command l)),
                           (''commandSentAt'', PStr (current_iso_timestamp t'))]],
              tasks := tasks ws @ [(b, l)]\<rparr>)"
  using bad by (simp_all add: ws_iteration_decoded [OF good])

lemma example_loads_brace: "example_loads ''{'' = Inl JSONDecodeError"
  by code_simp

lemma example_loads_Q: "example_loads text_image_Q = Inr (PDict [(''image'', PStr ''Q'')])"
  by code_simp

lemma b64decode_strip_Q: "b64decode (strip_data_uri ''Q'') = Inl BinasciiError"
  by code_simp

text \<open>
  Claim C5. Take a text frame whose text \<open>json.loads\<close> rejects or whose image string
  fails base64 decoding: the pass through the loop sends the frame
  \<open>{"error": "Malformed JSON or base64 decode error"}\<close> and continues. Take a text
  frame whose \<open>image\<close> is present and not a string: the pass sends the frame
  \<open>{"error": "Invalid message format: 'image' must be base64 string"}\<close> and continues.
  In both cases the connection afterwards is the one before with this frame added to
  the frames sent and nothing else changed; the loop, given no further frame, waits
  in \<open>receive\<close> (it has not closed), and given further frames it handles them from that
  connection. A valid text frame that follows is acknowledged and its image scheduled
  for saving, exactly as it is when it arrives on the connection with no error before
  it.
\<close>

theorem ws_error_keeps_connection:
  "msg_type bad = ''websocket.receive'' \<and> msg_text bad = Some bad_text \<and>
   msg_type good = ''websocket.receive'' \<and> msg_text good = Some good_text \<and>
   loads good_text = Inr (PDict kvs') \<and> map_of kvs' ''image'' = Some (PStr s') \<and>
   b64decode (strip_data_uri s') = Inr image_bytes \<and>
   lbl = (case map_of kvs' ''label'' of None \<Rightarrow> PNone | Some l \<Rightarrow> l) \<and>
   ack = PDict [(''command'', PDict (make_control_command lbl)),
                (''commandSentAt'', PStr (current_iso_timestamp t'))] \<and>
   malformed = PDict [(''error'', PStr ''Malformed JSON or base64 decode error'')] \<and>
   invalid = PDict [(''error'', PStr ''Invalid message format: 'image' must be base64 string'')] \<Longrightarrow>
   (loads bad_text = Inl e \<or>
    (loads bad_text = Inr (PDict kvs) \<and> map_of kvs ''image'' = Some (PStr s) \<and>
     b64decode (strip_data_uri s) = Inl e) \<longrightarrow>
      ws_iteration loads bad t ws = Inr (Continue, ws\<lparr>sent := sent ws @ [malformed]\<rparr>) \<and>
      receive_loop loads ((bad, t) # rest) ws =
        receive_loop loads rest (ws\<lparr>sent := sent ws @ [malformed]\<rparr>) \<and>
      receive_loop loads [(bad, t)] ws =
        Inr (Receiving, ws\<lparr>sent := sent ws @ [malformed]\<rparr>) \<and>
      receive_loop loads [(bad, t), (good, t')] ws =
        Inr (Receiving,
             ws\<lparr>sent := sent ws @ [malformed, ack],
                tasks := tasks ws @ [(image_bytes, lbl)]\<rparr>)) \<and>
   (loads bad_text = Inr (PDict kvs) \<and> map_of kvs ''image'' = Some v \<and> (\<forall>s. v \<noteq> PStr s) \<longrightarrow>
      ws_iteration loads bad t ws = Inr (Continue, ws\<lparr>sent := sent ws @ [invalid]\<rparr>) \<and>
      receive_loop loads ((bad, t) # rest) ws =
        receive_loop loads rest (ws\<lparr>sent := sent ws @ [invalid]\<rparr>) \<and>
      receive_loop loads [(bad, t)] ws =
        Inr (Receiving, ws\<lparr>sent := sent ws @ [invalid]\<rparr>) \<and>
      receive_loop loads [(bad, t), (good, t')] ws =
        Inr (Receiving,
             ws\<lparr>sent := sent ws @ [invalid, ack],
                tasks := tasks ws @ [(image_bytes, lbl)]\<rparr>)) \<and>
   receive_loop loads [(good, t')] ws =
     Inr (Receiving,
          ws\<lparr>sent := sent ws @ [ack], tasks := tasks ws @ [(image_bytes, lbl)]\<rparr>)"
proof -
  assume a: "msg_type bad = ''websocket.receive'' \<and> msg_text bad = Some bad_text \<and>
   msg_type good = ''websocket.receive'' \<and> msg_text good = Some good_text \<and>
   loads good_text = Inr (PDict kvs') \<and> map_of kvs' ''image'' = Some (PStr s') \<and>
   b64decode (strip_data_uri s') = Inr image_bytes \<and>
   lbl = (case map_of kvs' ''label'' of None \<Rightarrow> PNone | Some l \<Rightarrow> l) \<and>
   ack = PDict [(''command'', PDict (make_control_command lbl)),
                (''commandSentAt'', PStr (current_iso_timestamp t'))] \<and>
   malformed = PDict [(''error'', PStr ''Malformed JSON or base64 decode error'')] \<and>
   invalid = PDict [(''error'', PStr ''Invalid message format: 'image' must be base64 string'')]"
  then have ty: "msg_type bad = ''websocket.receive''" and tx: "msg_text bad = Some bad_text"
    and gty: "msg_type good = ''websocket.receive''" and gtx: "msg_text good = Some good_text"
    by simp_all
  from a have dec: "decode_text_frame loads good_text = Inr (Decoded image_bytes lbl)"
    by (simp add: decode_text_frame_ok)
  from a have ack: "ack = PDict [(''command'', PDict (make_control_command lbl)),
      (''commandSentAt'', PStr (current_iso_timestamp t'))]"
    and mal: "malformed = PDict [(''error'', PStr ''Malformed JSON or base64 decode error'')]"
    and inv: "invalid =
      PDict [(''error'', PStr ''Invalid message format: 'image' must be base64 string'')]"
    by simp_all
  have m: "ws_iteration loads bad t ws =
      Inr (Continue,
           ws\<lparr>sent := sent ws @
              [PDict [(''error'', PStr ''Malformed JSON or base64 decode error'')]]\<rparr>)"
    if "decode_text_frame loads bad_text = Inl e"
    using that by (rule ws_iteration_malformed [OF ty tx])
  have i: "ws_iteration loads bad t ws =
      Inr (Continue,
           ws\<lparr>sent := sent ws @
              [PDict [(''error'',
                 PStr ''Invalid message format: 'image' must be base64 string'')]]\<rparr>)"
    if "decode_text_frame loads bad_text = Inr NotAString"
    using that by (rule ws_iteration_invalid_format [OF ty tx])
  have first: "decode_text_frame loads bad_text = Inl e"
    if "loads bad_text = Inl e \<or>
      (loads bad_text = Inr (PDict kvs) \<and> map_of kvs ''image'' = Some (PStr s) \<and>
       b64decode (strip_data_uri s) = Inl e)"
    using that by (auto simp add: decode_text_frame_loads_fails decode_text_frame_b64_fails)
  have second: "decode_text_frame loads bad_text = Inr NotAString"
    if "loads bad_text = Inr (PDict kvs) \<and> map_of kvs ''image'' = Some v \<and> (\<forall>s. v \<noteq> PStr s)"
    using that by (simp add: decode_text_frame_not_str)
  have alone: "receive_loop loads [(good, t')] ws =
      Inr (Receiving,
           ws\<lparr>sent := sent ws @
                   [PDict [(''command'', PDict (make_control_command lbl)),
                           (''commandSentAt'', PStr (current_iso_timestamp t'))]],
              tasks := tasks ws @ [(image_bytes, lbl)]\<rparr>)"
    by (simp add: ws_iteration_decoded [OF gty gtx dec])
  show ?thesis
    unfolding ack mal inv
    using m [OF first] error_then_valid(1-3) [OF m [OF first] gty gtx dec]
      i [OF second] error_then_valid(1-3) [OF i [OF second] gty gtx dec] alone
    by (simp del: receive_loop.simps)
qed

theorem ws_error_keeps_connection_witness:
  "example_loads ''{'' = Inl JSONDecodeError \<and>
   receive_loop example_loads
     [(text_frame ''{'', example_now), (text_frame text_label_a, example_now)] new_conn =
     Inr (Receiving,
          \<lparr>accepted = True,
           sent = [PDict [(''error'', PStr ''Malformed JSON or base64 decode error'')],
                   PDict [(''command'', PDict [(''action'', PStr ''ACK''),
                                                (''labelReceived'', PStr ''a'')]),
                          (''commandSentAt'', PStr ''2024-01-02T03:04:05+00:00'')]],
           tasks = [([65, 66, 67], PStr ''a'')]\<rparr>) \<and>
   example_loads text_image_Q = Inr (PDict [(''image'', PStr ''Q'')]) \<and>
   b64decode (strip_data_uri ''Q'') = Inl BinasciiError \<and>
   receive_loop example_loads
     [(text_frame text_image_Q, example_now), (text_frame text_label_a, example_now)] new_conn =
     Inr (Receiving,
          \<lparr>accepted = True,
           sent = [PDict [(''error'', PStr ''Malformed JSON or base64 decode error'')],
                   PDict [(''command'', PDict [(''action'', PStr ''ACK''),
                                                (''labelReceived'', PStr ''a'')]),
                          (''commandSentAt'', PStr ''2024-01-02T03:04:05+00:00'')]],
           tasks = [([65, 66, 67], PStr ''a'')]\<rparr>) \<and>
   example_loads text_image_123 = Inr (PDict [(''image'', PInt 123)]) \<and>
   (\<forall>s. PInt 123 \<noteq> (PStr s :: pyval)) \<and>
   receive_loop example_loads
     [(text_frame text_image_123, example_now), (text_frame text_label_a, example_now)]
     new_conn =
     Inr (Receiving,
          \<lparr>accepted = True,
           sent = [PDict [(''error'',
                           PStr ''Invalid message format: 'image' must be base64 string'')],
                   PDict [(''command'', PDict [(''action'', PStr ''ACK''),
                                                (''labelReceived'', PStr ''a'')]),
                          (''commandSentAt'', PStr ''2024-01-02T03:04:05+00:00'')]],
           tasks = [([65, 66, 67], PStr ''a'')]\<rparr>)"
proof -
  have h: "msg_type (text_frame x) = ''websocket.receive'' \<and>
      msg_text (text_frame x) = Some x \<and>
      msg_type (text_frame text_label_a) = ''websocket.receive'' \<and>
      msg_text (text_frame text_label_a) = Some text_label_a \<and>
      example_loads text_label_a =
        Inr (PDict [(''label'', PStr ''a''), (''image'', PStr ''QUJD'')]) \<and>
      map_of [(''label'', PStr ''a''), (''image'', PStr ''QUJD'')] ''image'' =
        Some (PStr ''QUJD'') \<and>
      b64decode (strip_data_uri ''QUJD'') = Inr [65, 66, 67] \<and>
      PStr ''a'' =
        (case map_of [(''label'', PStr ''a''), (''image'', PStr ''QUJD'')] ''label'' of
           None \<Rightarrow> PNone | Some l \<Rightarrow> l) \<and>
      PDict [(''command'', PDict (make_control_command (PStr ''a''))),
             (''commandSentAt'', PStr (current_iso_timestamp example_now))] =
        PDict [(''command'', PDict (make_control_command (PStr ''a''))),
               (''commandSentAt'', PStr (current_iso_timestamp example_now))] \<and>
      PDict [(''error'', PStr ''Malformed JSON or base64 decode error'')] =
        PDict [(''error'', PStr ''Malformed JSON or base64 decode error'')] \<and>
      PDict [(''error'', PStr ''Invalid message format: 'image' must be base64 string'')] =
        PDict [(''error'', PStr ''Invalid message format: 'image' must be base64 string'')]"
    for x
    by (simp add: text_frame_def example_loads_a b64decode_QUJD)
  note json = ws_error_keeps_connection
      [where bad = "text_frame ''{''" and bad_text = "''{''" and e = JSONDecodeError
         and loads = example_loads and good = "text_frame text_label_a"
         and good_text = text_label_a and t = example_now and ws = new_conn and rest = "[]"
         and t' = example_now,
       OF h [of "''{''"]]
  note b64 = ws_error_keeps_connection
      [where bad = "text_frame text_image_Q" and bad_text = text_image_Q and e = BinasciiError
         and kvs = "[(''image'', PStr ''Q'')]" and s = "''Q''"
         and loads = example_loads and good = "text_frame text_label_a"
         and good_text = text_label_a and t = example_now and ws = new_conn and rest = "[]"
         and t' = example_now,
       OF h [of text_image_Q]]
  note fmt = ws_error_keeps_connection
      [where bad = "text_frame text_image_123" and bad_text = text_image_123
         and kvs = "[(''image'', PInt 123)]" and v = "PInt 123"
         and loads = example_loads and good = "text_frame text_label_a"
         and good_text = text_label_a and t = example_now and ws = new_conn and rest = "[]"
         and t' = example_now,
       OF h [of text_image_123]]
  from json b64 fmt show ?thesis
    by (simp add: example_loads_brace example_loads_Q example_loads_123 b64decode_strip_Q
        new_conn_def make_control_command_eq current_iso_timestamp_def isoformat_example
        del: receive_loop.simps)
qed

subsection \<open>The persistence sink\<close>

lemma post_uploadBase64_ok:
  "b64decode (strip_data_uri (image' payload)) = Inr image_bytes \<Longrightarrow>
   post_uploadBase64 cfg write_file other payload t t' fs =
     (Inr \<lparr>status_code = 200, content = ack_response (optional_str (label payload)) t\<rparr>,
      save_image cfg write_file other t' image_bytes (optional_str (label payload)) fs)"
  by (simp add: post_uploadBase64_def upload_base64_eq split: sum.split)

lemma post_upload_ok:
  "read_result = Inr contents \<Longrightarrow>
   post_upload cfg write_file other ol read_result t t' fs =
     (Inr \<lparr>status_code = 200, content = ack_response (optional_str ol) t\<rparr>,
      save_image cfg write_file other t' contents (optional_str ol) fs)"
  by (simp add: post_upload_def upload_form_eq split: sum.split)

text \<open>
  \<open>save_image\<close> builds the suffix with \<open>if label\<close>, so the label \<open>""\<close>, which is
  present, gives the file name of a request without label: the underscore is left out
  although the label is not absent.
\<close>

theorem save_image_empty_label_counterexample:
  "optional_str (Some []) \<noteq> (PNone :: pyval) \<and>
   save_image example_cfg write_ok no_other example_now [255, 216] (optional_str (Some [])) [] =
     Inr [(Div (Div (Path ''/srv/app'') ''received_images'') ''20240102T030405Z.jpg'',
           [255, 216])] \<and>
   ''20240102T030405Z.jpg'' \<noteq> ''20240102T030405Z_.jpg''"
  by (simp add: save_image_def example_cfg_def write_ok_def RECEIVED_IMAGES_DIR_def
      strftime_example)

text \<open>
  Claim C7, as the code has it. With the storage flag off \<open>save_image\<close> does nothing:
  the file system is returned as it was and nothing is written. With the flag on it
  performs exactly one write, of exactly the given bytes, to the path
  \<open>RECEIVED_IMAGES_DIR / name\<close>. The name is the timestamp followed by \<open>.jpg\<close> exactly
  when the label is false in Python's sense (\<open>truthy\<close>): absent or empty on the HTTP
  paths, and also \<open>false\<close>, \<open>0\<close>, \<open>0.0\<close>, \<open>[]\<close> or \<open>{}\<close> when it comes from a WebSocket
  text frame. Otherwise the name is the timestamp, an underscore, what Python's
  formatting makes of the label (a string label itself) and \<open>.jpg\<close>. The timestamp
  has the shape \<open>YYYYMMDDTHHMMSSZ\<close> for every clock reading from the year 1000 on. And
  no error of the write reaches the caller, because no handler awaits \<open>save_image\<close>:
  a POST to either HTTP endpoint is answered with the response of the handler,
  whatever \<open>write_file\<close> does with the scheduled call, also when it fails; and the pass
  of the WebSocket loop hands the call to \<open>asyncio.create_task\<close> and sends its reply.
\<close>

theorem save_image_one_write:
  "(\<not> STORE_IMAGES cfg \<longrightarrow> save_image cfg write_file other now image_bytes lbl fs = Inr fs) \<and>
   (STORE_IMAGES cfg \<and> \<not> truthy lbl \<longrightarrow>
      save_image cfg write_file other now image_bytes lbl fs =
        write_file (Div (RECEIVED_IMAGES_DIR cfg) (strftime_compact now @ ''.jpg''))
          image_bytes fs) \<and>
   (STORE_IMAGES cfg \<and> truthy lbl \<longrightarrow>
      save_image cfg write_file other now image_bytes lbl fs =
        write_file
          (Div (RECEIVED_IMAGES_DIR cfg)
             (strftime_compact now @ ''_'' @ format_value other lbl @ ''.jpg''))
          image_bytes fs) \<and>
   format_value other (PStr l) = l \<and>
   (truthy (optional_str ol) \<longleftrightarrow> ol \<noteq> None \<and> ol \<noteq> Some []) \<and>
   (valid_datetime now \<and> 1000 \<le> year now \<longrightarrow>
      matches_pat ''99999999T999999Z'' (strftime_compact now)) \<and>
   (b64decode (strip_data_uri (image' payload)) = Inr image_bytes \<longrightarrow>
      post_uploadBase64 cfg write_file other payload t t' fs =
        (Inr \<lparr>status_code = 200, content = ack_response (optional_str (label payload)) t\<rparr>,
         save_image cfg write_file other t' image_bytes (optional_str (label payload)) fs)) \<and>
   (read_result = Inr image_bytes \<longrightarrow>
      post_upload cfg write_file other ol read_result t t' fs =
        (Inr \<lparr>status_code = 200, content = ack_response (optional_str ol) t\<rparr>,
         save_image cfg write_file other t' image_bytes (optional_str ol) fs)) \<and>
   (msg_type data = ''websocket.receive'' \<and> msg_text data = Some frame_text \<and>
    decode_text_frame loads frame_text = Inr (Decoded image_bytes lbl) \<longrightarrow>
      ws_iteration loads data t ws =
        Inr (Continue,
             ws\<lparr>sent := sent ws @
                     [PDict [(''command'', PDict (make_control_command lbl)),
                             (''commandSentAt'', PStr (current_iso_timestamp t))]],
                tasks := tasks ws @ [(image_bytes, lbl)]\<rparr>))"
proof -
  have off: "\<not> STORE_IMAGES cfg \<longrightarrow>
      save_image cfg write_file other now image_bytes lbl fs = Inr fs"
    by (simp add: save_image_def)
  have plain: "STORE_IMAGES cfg \<and> \<not> truthy lbl \<longrightarrow>
      save_image cfg write_file other now image_bytes lbl fs =
        write_file (Div (RECEIVED_IMAGES_DIR cfg) (strftime_compact now @ ''.jpg''))
          image_bytes fs"
    by (simp add: save_image_def)
  have labelled: "STORE_IMAGES cfg \<and> truthy lbl \<longrightarrow>
      save_image cfg write_file other now image_bytes lbl fs =
        write_file
          (Div (RECEIVED_IMAGES_DIR cfg)
             (strftime_compact now @ ''_'' @ format_value other lbl @ ''.jpg''))
          image_bytes fs"
    by (simp add: save_image_def)
  have opt: "truthy (optional_str ol) \<longleftrightarrow> ol \<noteq> None \<and> ol \<noteq> Some []"
    by (cases ol) simp_all
  from off plain labelled opt show ?thesis
    by (simp add: strftime_compact_shape post_uploadBase64_ok post_upload_ok
        ws_iteration_decoded)
qed

theorem save_image_one_write_witness:
  "STORE_IMAGES example_cfg \<and> truthy (PStr ''cam1'') \<and>
   valid_datetime example_now \<and> 1000 \<le> year example_now \<and>
   b64decode (strip_data_uri (image' \<lparr>label = Some ''cam1'', image' = ''QUJD''\<rparr>)) =
     Inr [65, 66, 67] \<and>
   save_image example_cfg write_ok no_other example_now [65, 66, 67] (PStr ''cam1'') [] =
     Inr [(Div (Div (Path ''/srv/app'') ''received_images'') ''20240102T030405Z_cam1.jpg'',
           [65, 66, 67])] \<and>
   matches_pat ''99999999T999999Z'' ''20240102T030405Z'' \<and>
   post_uploadBase64 example_cfg write_fails no_other
       \<lparr>label = Some ''cam1'', image' = ''QUJD''\<rparr> example_now example_now [] =
     (Inr \<lparr>status_code = 200, content = ack_response (PStr ''cam1'') example_now\<rparr>,
      Inl OSError)"
proof -
  have d: "b64decode (strip_data_uri (image' \<lparr>label = Some ''cam1'', image' = ''QUJD''\<rparr>)) =
      Inr [65, 66, 67]"
    by (simp add: b64decode_QUJD)
  have y: "1000 \<le> year example_now"
    by (simp add: example_now_def)
  from save_image_one_write
      [of example_cfg write_ok no_other example_now "[65, 66, 67]" "PStr ''cam1''" "[]"]
    save_image_one_write
      [of example_cfg write_fails no_other example_now "[65, 66, 67]" "PStr ''cam1''" "[]"
          "''cam1''" "Some ''cam1''" "\<lparr>label = Some ''cam1'', image' = ''QUJD''\<rparr>"
          example_now example_now]
    d y
  show ?thesis
    by (simp add: valid_example_now example_cfg_def write_ok_def write_fails_def
        RECEIVED_IMAGES_DIR_def strftime_example)
qed

subsection \<open>The lenient decoder\<close>

lemma a2b_loop_filter:
  "a2b_loop (filter in_alphabet cs) q l p out = a2b_loop cs q l p out"
  by (induction cs arbitrary: q l p out) (simp_all add: in_alphabet_def Let_def not_less)

lemma is_ascii_filter: "is_ascii s \<Longrightarrow> is_ascii (filter P s)"
  by (simp add: is_ascii_def)

lemma b64decode_skips:
  "is_ascii s \<Longrightarrow> b64decode (filter (\<lambda>c. in_alphabet (of_char c)) s) = b64decode s"
proof -
  assume a: "is_ascii s"
  have "map of_char (filter (\<lambda>c. in_alphabet (of_char c)) s) =
      filter in_alphabet (map of_char s :: bytes)"
    by (simp add: filter_map comp_def)
  with a show ?thesis
    by (simp add: b64decode_def a2b_base64_def is_ascii_filter a2b_loop_filter)
qed

lemma a2b_loop_error_count:
  "a2b_loop cs q l p out = Inl e \<Longrightarrow> q < 4 \<Longrightarrow>
   (q + length (filter (\<lambda>c. table_a2b_base64 c < 64) cs)) mod 4 \<noteq> 0"
proof (induction cs arbitrary: q l p out)
  case Nil
  then show ?case by (simp split: if_splits)
next
  case (Cons c cs)
  have pad: "\<not> table_a2b_base64 BASE64_PAD < 64"
    by (simp add: table_a2b_base64_def BASE64_PAD_def)
  show ?case
  proof (cases "c = BASE64_PAD")
    case True
    with Cons.prems have "a2b_loop cs q l (if q \<ge> 2 then p + 1 else p) out = Inl e"
      by (simp split: if_splits)
    from Cons.IH [OF this Cons.prems(2)] True pad show ?thesis
      by simp
  next
    case False
    show ?thesis
    proof (cases "table_a2b_base64 c < 64")
      case skip: False
      with False Cons.prems have "a2b_loop cs q l p out = Inl e"
        by (simp add: Let_def not_less)
      from Cons.IH [OF this Cons.prems(2)] skip show ?thesis
        by simp
    next
      case True
      then have nle: "\<not> 64 \<le> table_a2b_base64 c"
        by (simp add: not_le)
      from Cons.prems(2) consider "q = 0" | "q = 1" | "q = 2" | "q = 3"
        by linarith
      then show ?thesis
      proof cases
        case 1
        with False True Cons.prems have "a2b_loop cs 1 (table_a2b_base64 c) 0 out = Inl e"
          by (simp add: Let_def nle)
        from Cons.IH [OF this] 1 True show ?thesis by simp
      next
        case 2
        with False True Cons.prems obtain l' out' where "a2b_loop cs 2 l' 0 out' = Inl e"
          by (simp add: Let_def nle)
        from Cons.IH [OF this] 2 True show ?thesis by simp
      next
        case 3
        with False True Cons.prems obtain l' out' where "a2b_loop cs 3 l' 0 out' = Inl e"
          by (simp add: Let_def nle)
        from Cons.IH [OF this] 3 True show ?thesis by simp
      next
        case 4
        with False True Cons.prems obtain out' where "a2b_loop cs 0 0 0 out' = Inl e"
          by (simp add: Let_def nle)
        from Cons.IH [OF this] 4 True show ?thesis by simp
      qed
    qed
  qed
qed

lemma b64decode_error_count:
  "b64decode s = Inl e \<Longrightarrow> is_ascii s \<Longrightarrow> data_chars s mod 4 \<noteq> 0"
proof -
  assume d: "b64decode s = Inl e" and a: "is_ascii s"
  have "length (filter (\<lambda>c. table_a2b_base64 c < 64) (map of_char s :: bytes)) = data_chars s"
    by (simp add: data_chars_def filter_map comp_def)
  moreover from d a have "a2b_loop (map of_char s) 0 0 0 [] = Inl e"
    by (simp add: b64decode_def a2b_base64_def)
  ultimately show ?thesis
    using a2b_loop_error_count [of "map of_char s" 0 0 0 "[]" e] by simp
qed

lemma b64decode_empty: "b64decode (strip_data_uri []) = Inr []"
  by code_simp

lemma b64decode_at: "b64decode (strip_data_uri ''@@@'') = Inr []"
  by code_simp

lemma b64decode_Q: "b64decode ''Q'' = Inl BinasciiError"
  by code_simp

text \<open>
  A character above 127 is outside the base64 alphabet, yet it is not discarded. The
  string of the one character with code point 233 has no alphabet character and no
  padding: its filtered count is the valid count 0, and discarding the character would
  leave the empty string, which decodes. But \<open>b64decode\<close> raises \<open>ValueError\<close> on it
  and the endpoint answers 400.
\<close>

theorem non_ascii_rejected_counterexample:
  "data_chars [CHR 0xE9] mod 4 = 0 \<and> CHR ''='' \<notin> set [CHR 0xE9] \<and>
   \<not> in_alphabet (of_char (CHR 0xE9)) \<and>
   b64decode [CHR 0xE9] = Inl ValueError \<and> b64decode [] = Inr [] \<and>
   upload_base64 \<lparr>label = None, image' = [CHR 0xE9]\<rparr> [] example_now =
     Inr (\<lparr>status_code = 400,
           content = PDict [(''error'', PStr ''Invalid base64 image'')]\<rparr>, [])"
  by code_simp

text \<open>
  Claim C9, as the code has it. On an ASCII string the decoder is lenient: the
  characters that are neither in the alphabet nor the pad are skipped, so the string
  decodes like the string without them; the empty string and the string \<open>@@@\<close> decode
  to the empty byte sequence and get the 200 answer with the acknowledgment. The
  error branch is taken only when the string has a non-ASCII character or the number of
  its alphabet characters is not a multiple of four (a count of one too many, or
  missing padding).
\<close>

theorem lenient_decoder:
  "(is_ascii s \<longrightarrow> b64decode s = b64decode (filter (\<lambda>c. in_alphabet (of_char c)) s)) \<and>
   (b64decode s = Inl e \<longrightarrow> \<not> is_ascii s \<or> data_chars s mod 4 \<noteq> 0) \<and>
   upload_base64 \<lparr>label = lbl, image' = []\<rparr> bt now =
     Inr (\<lparr>status_code = 200, content = ack_response (optional_str lbl) now\<rparr>,
          bt @ [([], optional_str lbl)]) \<and>
   upload_base64 \<lparr>label = lbl, image' = ''@@@''\<rparr> bt now =
     Inr (\<lparr>status_code = 200, content = ack_response (optional_str lbl) now\<rparr>,
          bt @ [([], optional_str lbl)])"
  using b64decode_skips [of s] b64decode_error_count [of s e]
  by (auto simp add: upload_base64_eq b64decode_empty b64decode_at)

theorem lenient_decoder_witness:
  "is_ascii ''Q'' \<and> b64decode ''Q'' = Inl BinasciiError \<and> data_chars ''Q'' mod 4 \<noteq> 0 \<and>
   upload_base64 \<lparr>label = None, image' = ''@@@''\<rparr> [] example_now =
     Inr (\<lparr>status_code = 200, content = ack_response PNone example_now\<rparr>, [([], PNone)])"
proof -
  have a: "is_ascii ''Q''"
    by (simp add: is_ascii_def)
  from lenient_decoder [of "''Q''" BinasciiError None "[]" example_now] a show ?thesis
    by (simp add: b64decode_Q)
qed

end
